theory Spec2Isabelle
  imports Complex_Main "HOL-Library.Sublist"
begin

section \<open>JavaScript values\<close>

text \<open>
  A JavaScript number is NaN, an infinity or a finite value. Finite doubles are
  rationals, so a finite value is a \<open>rat\<close>; the two zeros are one value, which the
  operations below (truthiness, \<open>isNaN\<close>, comparison with 0) do not tell apart.
\<close>

datatype jsnum = NaN | Fin rat | PosInf | NegInf

text \<open>A \<open>Date\<close> object holds a time value: NaN (an invalid date) or milliseconds.\<close>

datatype jsdate = InvalidDate | DateMs int

text \<open>
  The value of a property of the request body or of a DTO: \<open>undefined\<close> (also what
  reading a missing key gives), \<open>null\<close>, or a value of the declared type.
\<close>

datatype 'a js = Undefined | Null | Val 'a

text \<open>
  \<open>salary?: number | string\<close> of \<open>CreateEmployeeData\<close>. The service takes the body as
  \<open>data: any\<close> and nothing checks it against that type, so a salary can also be any
  other JSON value: a boolean, or an array or object, which is given here by the number
  it converts to (\<open>[5]\<close> converts to 5, \<open>[]\<close> to 0, \<open>{}\<close> to NaN).
\<close>

datatype salary_input = N jsnum | S string | Boolean bool | ArrayOrObject jsnum

text \<open>
  What the DTO then holds as salary: a number (also the result of \<open>parseFloat\<close>), or
  the boolean, array or object of the body unchanged.
\<close>

datatype salary_value = Num jsnum | Bool bool | Obj jsnum

text \<open>\<open>hireDate?: string | Date\<close> of \<open>CreateEmployeeData\<close>.\<close>

datatype string_or_Date = DS string | DD jsdate

text \<open>A value stored in an object that is built field by field (a payload, a response).\<close>

datatype jsval =
    JUndefined | JNull | JNum jsnum | JStr string | JDate jsdate | JBool bool | JObj jsnum

text \<open>Such an object: its own properties in creation order.\<close>

type_synonym jsobject = "(string \<times> jsval) list"

definition Object_keys :: "jsobject \<Rightarrow> string list" where
  "Object_keys obj = map fst obj"

text \<open>A thrown \<open>Error\<close>, with its message.\<close>

datatype js_error = Error string

text \<open>
  Functions of the JavaScript runtime and of the Decimal library that the code calls.
  They are not code of the repository and are taken as parameters.
\<close>

record builtins =
  parseFloat :: "string \<Rightarrow> jsnum"
  parseInt :: "string \<Rightarrow> jsnum"
  Date_of_string :: "string \<Rightarrow> jsdate"
  Number_toString :: "jsnum \<Rightarrow> string"
  Decimal_toString :: "rat \<Rightarrow> string"

subsection \<open>Truthiness and coercions\<close>

fun truthy_string :: "string js \<Rightarrow> bool" where
  "truthy_string (Val s) = (s \<noteq> [])"
| "truthy_string Undefined = False"
| "truthy_string Null = False"

text \<open>
  Truthiness of a salary: a number other than 0 and NaN, \<open>true\<close>, and every array or
  object.
\<close>

fun truthy_number :: "salary_value js \<Rightarrow> bool" where
  "truthy_number (Val (Num NaN)) = False"
| "truthy_number (Val (Num (Fin r))) = (r \<noteq> 0)"
| "truthy_number (Val (Num PosInf)) = True"
| "truthy_number (Val (Num NegInf)) = True"
| "truthy_number (Val (Bool b)) = b"
| "truthy_number (Val (Obj n)) = True"
| "truthy_number Undefined = False"
| "truthy_number Null = False"

fun truthy_Date :: "jsdate js \<Rightarrow> bool" where
  "truthy_Date (Val d) = True"
| "truthy_Date Undefined = False"
| "truthy_Date Null = False"

fun truthy_string_or_Date :: "string_or_Date js \<Rightarrow> bool" where
  "truthy_string_or_Date (Val (DS s)) = (s \<noteq> [])"
| "truthy_string_or_Date (Val (DD d)) = True"
| "truthy_string_or_Date Undefined = False"
| "truthy_string_or_Date Null = False"

text \<open>
  The number a salary converts to: \<open>true\<close> is 1, \<open>false\<close> and \<open>null\<close> are 0,
  \<open>undefined\<close> is NaN.
\<close>

fun ToNumber :: "salary_value js \<Rightarrow> jsnum" where
  "ToNumber (Val (Num n)) = n"
| "ToNumber (Val (Bool b)) = (if b then Fin 1 else Fin 0)"
| "ToNumber (Val (Obj n)) = n"
| "ToNumber Undefined = NaN"
| "ToNumber Null = Fin 0"

text \<open>\<open>isNaN(x)\<close> and \<open>x <= 0\<close> convert \<open>x\<close> to a number first; NaN is not \<open><= 0\<close>.\<close>

fun isNaN :: "salary_value js \<Rightarrow> bool" where
  "isNaN v = (ToNumber v = NaN)"

fun number_le_zero :: "jsnum \<Rightarrow> bool" where
  "number_le_zero NaN = False"
| "number_le_zero (Fin r) = (r \<le> 0)"
| "number_le_zero PosInf = False"
| "number_le_zero NegInf = True"

fun le_zero :: "salary_value js \<Rightarrow> bool" where
  "le_zero v = number_le_zero (ToNumber v)"

text \<open>\<open>d.getTime()\<close>\<close>

fun getTime :: "jsdate \<Rightarrow> jsnum" where
  "getTime InvalidDate = NaN"
| "getTime (DateMs t) = Fin (of_int t)"

text \<open>\<open>new Date(v)\<close> for a string, a \<open>Date\<close>, or \<open>null\<close> (which converts to 0).\<close>

fun new_Date :: "builtins \<Rightarrow> string_or_Date js \<Rightarrow> jsdate" where
  "new_Date B (Val (DS s)) = Date_of_string B s"
| "new_Date B (Val (DD d)) = d"
| "new_Date B Null = DateMs 0"
| "new_Date B Undefined = InvalidDate"

subsection \<open>Strings\<close>

text \<open>
  A \<open>char\<close> is a code unit below 256. White space is what both \<open>trim()\<close> and the
  regular expression class \<open>\s\<close> take in that range.
\<close>

definition is_space :: "char \<Rightarrow> bool" where
  "is_space c = (c = CHR 0x09 \<or> c = CHR 0x0A \<or> c = CHR 0x0B \<or> c = CHR 0x0C
     \<or> c = CHR 0x0D \<or> c = CHR 0x20 \<or> c = CHR 0xA0)"

definition trim :: "string \<Rightarrow> string" where
  "trim s = rev (dropWhile is_space (rev (dropWhile is_space s)))"

definition lower_char :: "char \<Rightarrow> char" where
  "lower_char c =
     (let n = (of_char c :: nat)
      in if (65 \<le> n \<and> n \<le> 90) \<or> (192 \<le> n \<and> n \<le> 222 \<and> n \<noteq> 215)
         then char_of (n + 32) else c)"

definition toLowerCase :: "string \<Rightarrow> string" where
  "toLowerCase s = map lower_char s"

text \<open>\<open>errors.join(', ')\<close>\<close>

fun join :: "string \<Rightarrow> string list \<Rightarrow> string" where
  "join sep [] = []"
| "join sep [x] = x"
| "join sep (x # y # ys) = x @ sep @ join sep (y # ys)"

text \<open>\<open>x?.trim()\<close> and \<open>x?.trim().toLowerCase()\<close>: \<open>undefined\<close> when x is null or undefined.\<close>

fun opt_trim :: "string js \<Rightarrow> string js" where
  "opt_trim (Val s) = Val (trim s)"
| "opt_trim Undefined = Undefined"
| "opt_trim Null = Undefined"

fun opt_trim_lower :: "string js \<Rightarrow> string js" where
  "opt_trim_lower (Val s) = Val (toLowerCase (trim s))"
| "opt_trim_lower Undefined = Undefined"
| "opt_trim_lower Null = Undefined"

text \<open>\<open>typeof v === 'string' ? parseFloat(v) : v\<close>\<close>

fun coerce_salary :: "builtins \<Rightarrow> salary_input js \<Rightarrow> salary_value js" where
  "coerce_salary B (Val (S s)) = Val (Num (parseFloat B s))"
| "coerce_salary B (Val (N n)) = Val (Num n)"
| "coerce_salary B (Val (Boolean b)) = Val (Bool b)"
| "coerce_salary B (Val (ArrayOrObject n)) = Val (Obj n)"
| "coerce_salary B Undefined = Undefined"
| "coerce_salary B Null = Null"

section \<open>Request DTOs\<close>

text \<open>
  The request body, at the type the DTO constructors declare for it
  (\<open>CreateEmployeeData\<close>), each field also admitting \<open>null\<close>, and the salary any JSON
  value. Keys other than these six are never read.
\<close>

record CreateEmployeeData =
  d_name :: "string js"
  d_email :: "string js"
  d_position :: "string js"
  d_department :: "string js"
  d_salary :: "salary_input js"
  d_hireDate :: "string_or_Date js"

record ValidationResult =
  isValid :: bool
  errors :: "string list"

text \<open>
  \<open>/^[^\s@]+@[^\s@]+\.[^\s@]+$/.test(email)\<close>. The class \<open>[^\s@]\<close> is \<open>email_char\<close>.
  A match is a non-empty run of such characters, an \<open>@\<close>, and a rest made of such
  characters only that has a dot which is neither its first nor its last character.
\<close>

definition email_char :: "char \<Rightarrow> bool" where
  "email_char c = (\<not> is_space c \<and> c \<noteq> CHR ''@'')"

definition isValidEmail :: "string \<Rightarrow> bool" where
  "isValidEmail email =
     (takeWhile email_char email \<noteq> [] \<and>
      (case dropWhile email_char email of
         [] \<Rightarrow> False
       | c # rest \<Rightarrow> c = CHR ''@'' \<and> list_all email_char rest
                    \<and> CHR ''.'' \<in> set (butlast (tl rest))))"

subsection \<open>CreateEmployeeRequestDto\<close>

record CreateEmployeeRequestDto =
  c_name :: "string js"
  c_email :: "string js"
  c_position :: "string js"
  c_department :: "string js"
  c_salary :: "salary_value js"
  c_hireDate :: "jsdate js"

definition CreateEmployeeRequestDto_new :: "builtins \<Rightarrow> CreateEmployeeData \<Rightarrow> CreateEmployeeRequestDto" where
  "CreateEmployeeRequestDto_new B data =
     \<lparr> c_name = opt_trim (d_name data),
       c_email = opt_trim_lower (d_email data),
       c_position = opt_trim (d_position data),
       c_department = opt_trim (d_department data),
       c_salary = coerce_salary B (d_salary data),
       c_hireDate = (if truthy_string_or_Date (d_hireDate data)
                     then Val (new_Date B (d_hireDate data)) else Undefined) \<rparr>"

text \<open>The email of a DTO as a string, where the code reads it knowing it is one.\<close>

fun the_string :: "string js \<Rightarrow> string" where
  "the_string (Val s) = s"
| "the_string Undefined = []"
| "the_string Null = []"

fun the_Date :: "jsdate js \<Rightarrow> jsdate" where
  "the_Date (Val d) = d"
| "the_Date Undefined = InvalidDate"
| "the_Date Null = InvalidDate"

text \<open>\<open>validate()\<close>: the six checks run one after the other, each pushing onto \<open>errors\<close>.\<close>

definition CreateEmployeeRequestDto_validate :: "CreateEmployeeRequestDto \<Rightarrow> ValidationResult" where
  "CreateEmployeeRequestDto_validate this =
     (let errors0 = [];
          errors1 = (if \<not> truthy_string (c_name this) then errors0 @ [''Name is required'']
                     else errors0);
          errors2 = (if \<not> truthy_string (c_email this) then errors1 @ [''Email is required'']
                     else if \<not> isValidEmail (the_string (c_email this))
                          then errors1 @ [''Invalid email format'']
                     else errors1);
          errors3 = (if \<not> truthy_string (c_position this)
                     then errors2 @ [''Position is required''] else errors2);
          errors4 = (if \<not> truthy_string (c_department this)
                     then errors3 @ [''Department is required''] else errors3);
          errors5 = (if \<not> truthy_number (c_salary this) then errors4 @ [''Salary is required'']
                     else if isNaN (c_salary this) \<or> le_zero (c_salary this)
                          then errors4 @ [''Salary must be a positive number'']
                     else errors4);
          errors6 = (if \<not> truthy_Date (c_hireDate this)
                     then errors5 @ [''Hire date is required'']
                     else if getTime (the_Date (c_hireDate this)) = NaN
                          then errors5 @ [''Invalid hire date format'']
                     else errors5)
      in \<lparr> isValid = (length errors6 = 0), errors = errors6 \<rparr>)"


subsection \<open>UpdateEmployeeRequestDto\<close>

text \<open>
  The constructor assigns a property only when the input has it, so each field records
  whether the object owns the property: \<open>None\<close> when it was never assigned, \<open>Some v\<close>
  when it was assigned \<open>v\<close> (which may be \<open>undefined\<close>). The class declares its fields
  without initialisers; they are type annotations and create no property.
\<close>

record UpdateEmployeeRequestDto =
  u_name :: "string js option"
  u_email :: "string js option"
  u_position :: "string js option"
  u_department :: "string js option"
  u_salary :: "salary_value js option"
  u_hireDate :: "jsdate js option"

text \<open>Reading a property: \<open>undefined\<close> when the object does not own it.\<close>

fun get_prop :: "'a js option \<Rightarrow> 'a js" where
  "get_prop None = Undefined"
| "get_prop (Some v) = v"

definition UpdateEmployeeRequestDto_new :: "builtins \<Rightarrow> CreateEmployeeData \<Rightarrow> UpdateEmployeeRequestDto" where
  "UpdateEmployeeRequestDto_new B data =
     \<lparr> u_name = (if d_name data \<noteq> Undefined then Some (opt_trim (d_name data)) else None),
       u_email = (if d_email data \<noteq> Undefined then Some (opt_trim_lower (d_email data))
                  else None),
       u_position = (if d_position data \<noteq> Undefined then Some (opt_trim (d_position data))
                     else None),
       u_department = (if d_department data \<noteq> Undefined
                       then Some (opt_trim (d_department data)) else None),
       u_salary = (if d_salary data \<noteq> Undefined then Some (coerce_salary B (d_salary data))
                   else None),
       u_hireDate = (if d_hireDate data \<noteq> Undefined
                     then Some (Val (new_Date B (d_hireDate data))) else None) \<rparr>"

definition UpdateEmployeeRequestDto_validate :: "UpdateEmployeeRequestDto \<Rightarrow> ValidationResult" where
  "UpdateEmployeeRequestDto_validate this =
     (let errors0 = [];
          errors1 = (if get_prop (u_email this) \<noteq> Undefined \<and> truthy_string (get_prop (u_email this))
                        \<and> \<not> isValidEmail (the_string (get_prop (u_email this)))
                     then errors0 @ [''Invalid email format''] else errors0);
          errors2 = (if get_prop (u_salary this) \<noteq> Undefined
                        \<and> (isNaN (get_prop (u_salary this)) \<or> le_zero (get_prop (u_salary this)))
                     then errors1 @ [''Salary must be a positive number''] else errors1);
          errors3 = (if get_prop (u_hireDate this) \<noteq> Undefined
                        \<and> getTime (the_Date (get_prop (u_hireDate this))) = NaN
                     then errors2 @ [''Invalid hire date format''] else errors2)
      in \<lparr> isValid = (length errors3 = 0), errors = errors3 \<rparr>)"

text \<open>\<open>Object.keys(this)\<close>: the own properties, in the order the constructor assigns them.\<close>

definition UpdateEmployeeRequestDto_keys :: "UpdateEmployeeRequestDto \<Rightarrow> string list" where
  "UpdateEmployeeRequestDto_keys this =
     (if u_name this \<noteq> None then [''name''] else []) @
     (if u_email this \<noteq> None then [''email''] else []) @
     (if u_position this \<noteq> None then [''position''] else []) @
     (if u_department this \<noteq> None then [''department''] else []) @
     (if u_salary this \<noteq> None then [''salary''] else []) @
     (if u_hireDate this \<noteq> None then [''hireDate''] else [])"

definition isEmpty :: "UpdateEmployeeRequestDto \<Rightarrow> bool" where
  "isEmpty this = (length (UpdateEmployeeRequestDto_keys this) = 0)"

section \<open>The employee entity and its response DTOs\<close>

text \<open>The persisted row. \<open>salary\<close> is a \<open>Decimal\<close>, a rational here.\<close>

record Employee =
  e_id :: int
  e_name :: string
  e_email :: string
  e_position :: string
  e_department :: string
  e_salary :: rat
  e_hireDate :: jsdate
  e_createdAt :: jsdate
  e_updatedAt :: jsdate

text \<open>Each constructor assigns its properties in this order.\<close>

definition EmployeeResponseDto :: "builtins \<Rightarrow> Employee \<Rightarrow> jsobject" where
  "EmployeeResponseDto B employee =
     [(''name'', JStr (e_name employee)),
      (''email'', JStr (e_email employee)),
      (''position'', JStr (e_position employee)),
      (''department'', JStr (e_department employee)),
      (''salary'', JStr (Decimal_toString B (e_salary employee))),
      (''hireDate'', JDate (e_hireDate employee)),
      (''createdAt'', JDate (e_createdAt employee)),
      (''updatedAt'', JDate (e_updatedAt employee))]"

definition EmployeeDetailResponseDto :: "builtins \<Rightarrow> Employee \<Rightarrow> jsobject" where
  "EmployeeDetailResponseDto B employee =
     [(''id'', JNum (Fin (of_int (e_id employee)))),
      (''name'', JStr (e_name employee)),
      (''email'', JStr (e_email employee)),
      (''position'', JStr (e_position employee)),
      (''department'', JStr (e_department employee)),
      (''salary'', JStr (Decimal_toString B (e_salary employee))),
      (''hireDate'', JDate (e_hireDate employee)),
      (''createdAt'', JDate (e_createdAt employee)),
      (''updatedAt'', JDate (e_updatedAt employee))]"

definition EmployeeListResponseDto :: "Employee \<Rightarrow> jsobject" where
  "EmployeeListResponseDto employee =
     [(''id'', JNum (Fin (of_int (e_id employee)))),
      (''name'', JStr (e_name employee)),
      (''email'', JStr (e_email employee)),
      (''position'', JStr (e_position employee)),
      (''department'', JStr (e_department employee))]"

subsection \<open>EmployeeMapper\<close>

text \<open>An \<open>Employee | null\<close> argument is an \<open>Employee option\<close>.\<close>

definition toResponseDto :: "builtins \<Rightarrow> Employee option \<Rightarrow> jsobject option" where
  "toResponseDto B employee =
     (case employee of None \<Rightarrow> None | Some e \<Rightarrow> Some (EmployeeResponseDto B e))"

definition toDetailResponseDto :: "builtins \<Rightarrow> Employee option \<Rightarrow> jsobject option" where
  "toDetailResponseDto B employee =
     (case employee of None \<Rightarrow> None | Some e \<Rightarrow> Some (EmployeeDetailResponseDto B e))"

definition toListResponseDto :: "Employee option \<Rightarrow> jsobject option" where
  "toListResponseDto employee =
     (case employee of None \<Rightarrow> None | Some e \<Rightarrow> Some (EmployeeListResponseDto e))"

text \<open>The argument of the array conversions: an array, or something that is not one.\<close>

datatype employees_arg = NotAnArray | Array "Employee option list"

definition toResponseDtoArray :: "builtins \<Rightarrow> employees_arg \<Rightarrow> jsobject list" where
  "toResponseDtoArray B employees =
     (case employees of
        NotAnArray \<Rightarrow> []
      | Array es \<Rightarrow> map the (filter (\<lambda>dto. dto \<noteq> None) (map (toResponseDto B) es)))"

definition toDetailResponseDtoArray :: "builtins \<Rightarrow> employees_arg \<Rightarrow> jsobject list" where
  "toDetailResponseDtoArray B employees =
     (case employees of
        NotAnArray \<Rightarrow> []
      | Array es \<Rightarrow> map the (filter (\<lambda>dto. dto \<noteq> None) (map (toDetailResponseDto B) es)))"

definition toListResponseDtoArray :: "employees_arg \<Rightarrow> jsobject list" where
  "toListResponseDtoArray employees =
     (case employees of
        NotAnArray \<Rightarrow> []
      | Array es \<Rightarrow> map the (filter (\<lambda>dto. dto \<noteq> None) (map toListResponseDto es)))"

section \<open>Persistence\<close>

text \<open>
  The Prisma client is an external collaborator: the store \<open>'db\<close> and the five
  operations of \<open>prisma.employee\<close> the repository calls are parameters. A query can
  fail; a mutation returns its outcome and the new store.
\<close>

datatype where_unique = WhereId jsnum | WhereEmail string

record EmployeeCreateInput =
  ci_name :: "string js"
  ci_email :: "string js"
  ci_position :: "string js"
  ci_department :: "string js"
  ci_salary :: "salary_value js"
  ci_hireDate :: "jsdate js"

record 'db prisma_employee =
  prisma_findMany :: "'db \<Rightarrow> string option \<Rightarrow> js_error + Employee list"
  prisma_findUnique :: "'db \<Rightarrow> where_unique \<Rightarrow> js_error + Employee option"
  prisma_create :: "'db \<Rightarrow> EmployeeCreateInput \<Rightarrow> (js_error + Employee) \<times> 'db"
  prisma_update :: "'db \<Rightarrow> jsnum \<Rightarrow> jsobject \<Rightarrow> (js_error + Employee) \<times> 'db"
  prisma_delete :: "'db \<Rightarrow> jsnum \<Rightarrow> (js_error + Employee) \<times> 'db"

text \<open>
  What a request does to the outside: the store, and the calls made to the client so
  far, with their arguments. \<open>FindMany\<close> carries the department filter, if any.
\<close>

datatype prisma_call =
    FindMany "string option"
  | FindUnique where_unique
  | Create EmployeeCreateInput
  | Update jsnum jsobject
  | Delete jsnum

record 'db world =
  store :: 'db
  calls :: "prisma_call list"

definition called :: "prisma_call \<Rightarrow> 'db world \<Rightarrow> 'db world" where
  "called c w = w\<lparr>calls := calls w @ [c]\<rparr>"

text \<open>The calls a run has added, given the world before it and the world after it.\<close>

definition calls_since :: "'db world \<Rightarrow> 'db world \<Rightarrow> prisma_call list" where
  "calls_since w w' = drop (length (calls w)) (calls w')"

subsection \<open>EmployeeRepository\<close>

text \<open>
  The TypeScript repository, which the TypeScript service imports. (The file also
  holds an older JavaScript version, whose \<open>update\<close> tests each field for truthiness
  where this one tests \<open>!== undefined\<close>.)
\<close>

text \<open>\<open>id: number | string\<close>, and \<open>parseInt(id.toString())\<close>.\<close>

datatype id_arg = IdNum jsnum | IdStr string

fun id_toString :: "builtins \<Rightarrow> id_arg \<Rightarrow> string" where
  "id_toString B (IdNum n) = Number_toString B n"
| "id_toString B (IdStr s) = s"

definition parse_id :: "builtins \<Rightarrow> id_arg \<Rightarrow> jsnum" where
  "parse_id B eid = parseInt B (id_toString B eid)"

definition EmployeeRepository_findAll ::
  "'db prisma_employee \<Rightarrow> 'db world \<Rightarrow> (js_error + Employee list) \<times> 'db world" where
  "EmployeeRepository_findAll P w =
     (prisma_findMany P (store w) None, called (FindMany None) w)"

definition EmployeeRepository_findById ::
  "'db prisma_employee \<Rightarrow> builtins \<Rightarrow> id_arg \<Rightarrow> 'db world
     \<Rightarrow> (js_error + Employee option) \<times> 'db world" where
  "EmployeeRepository_findById P B eid w =
     (prisma_findUnique P (store w) (WhereId (parse_id B eid)),
      called (FindUnique (WhereId (parse_id B eid))) w)"

definition EmployeeRepository_create ::
  "'db prisma_employee \<Rightarrow> CreateEmployeeRequestDto \<Rightarrow> 'db world
     \<Rightarrow> (js_error + Employee) \<times> 'db world" where
  "EmployeeRepository_create P data w =
     (let input = \<lparr> ci_name = c_name data, ci_email = c_email data,
                     ci_position = c_position data, ci_department = c_department data,
                     ci_salary = c_salary data, ci_hireDate = c_hireDate data \<rparr>;
          (result, store') = prisma_create P (store w) input
      in (result, \<lparr> store = store', calls = calls w @ [Create input] \<rparr>))"

text \<open>The value of a DTO property as it goes into the update payload.\<close>

fun string_val :: "string js \<Rightarrow> jsval" where
  "string_val (Val s) = JStr s"
| "string_val Null = JNull"
| "string_val Undefined = JUndefined"

fun number_val :: "salary_value js \<Rightarrow> jsval" where
  "number_val (Val (Num n)) = JNum n"
| "number_val (Val (Bool b)) = JBool b"
| "number_val (Val (Obj n)) = JObj n"
| "number_val Null = JNull"
| "number_val Undefined = JUndefined"

fun Date_val :: "jsdate js \<Rightarrow> jsval" where
  "Date_val (Val d) = JDate d"
| "Date_val Null = JNull"
| "Date_val Undefined = JUndefined"

text \<open>The first half of \<open>update\<close>: \<open>updateData\<close> starts empty and gains a key per test passed.\<close>

definition updateData_of :: "UpdateEmployeeRequestDto \<Rightarrow> jsobject" where
  "updateData_of data =
     (let updateData0 = [];
          updateData1 = (if get_prop (u_name data) \<noteq> Undefined
                         then updateData0 @ [(''name'', string_val (get_prop (u_name data)))]
                         else updateData0);
          updateData2 = (if get_prop (u_email data) \<noteq> Undefined
                         then updateData1 @ [(''email'', string_val (get_prop (u_email data)))]
                         else updateData1);
          updateData3 = (if get_prop (u_position data) \<noteq> Undefined
                         then updateData2 @ [(''position'', string_val (get_prop (u_position data)))]
                         else updateData2);
          updateData4 = (if get_prop (u_department data) \<noteq> Undefined
                         then updateData3 @ [(''department'', string_val (get_prop (u_department data)))]
                         else updateData3);
          updateData5 = (if get_prop (u_salary data) \<noteq> Undefined
                         then updateData4 @ [(''salary'', number_val (get_prop (u_salary data)))]
                         else updateData4);
          updateData6 = (if get_prop (u_hireDate data) \<noteq> Undefined
                         then updateData5 @ [(''hireDate'', Date_val (get_prop (u_hireDate data)))]
                         else updateData5)
      in updateData6)"

definition EmployeeRepository_update ::
  "'db prisma_employee \<Rightarrow> builtins \<Rightarrow> id_arg \<Rightarrow> UpdateEmployeeRequestDto \<Rightarrow> 'db world
     \<Rightarrow> (js_error + Employee) \<times> 'db world" where
  "EmployeeRepository_update P B eid data w =
     (let updateData = updateData_of data;
          (result, store') = prisma_update P (store w) (parse_id B eid) updateData
      in (result, \<lparr> store = store', calls = calls w @ [Update (parse_id B eid) updateData] \<rparr>))"

definition EmployeeRepository_delete ::
  "'db prisma_employee \<Rightarrow> builtins \<Rightarrow> id_arg \<Rightarrow> 'db world
     \<Rightarrow> (js_error + Employee) \<times> 'db world" where
  "EmployeeRepository_delete P B eid w =
     (let (result, store') = prisma_delete P (store w) (parse_id B eid)
      in (result, \<lparr> store = store', calls = calls w @ [Delete (parse_id B eid)] \<rparr>))"

definition EmployeeRepository_findByEmail ::
  "'db prisma_employee \<Rightarrow> string \<Rightarrow> 'db world \<Rightarrow> (js_error + Employee option) \<times> 'db world" where
  "EmployeeRepository_findByEmail P email w =
     (prisma_findUnique P (store w) (WhereEmail email), called (FindUnique (WhereEmail email)) w)"

definition EmployeeRepository_findByDepartment ::
  "'db prisma_employee \<Rightarrow> string \<Rightarrow> 'db world \<Rightarrow> (js_error + Employee list) \<times> 'db world" where
  "EmployeeRepository_findByDepartment P department w =
     (prisma_findMany P (store w) (Some department), called (FindMany (Some department)) w)"

section \<open>EmployeeService\<close>

text \<open>
  Each operation takes the world and returns the employee(s) or the thrown error, with
  the world after it. An error of the repository propagates unchanged.
\<close>

definition EmployeeService_getAllEmployees ::
  "'db prisma_employee \<Rightarrow> 'db world \<Rightarrow> (js_error + Employee list) \<times> 'db world" where
  "EmployeeService_getAllEmployees P w = EmployeeRepository_findAll P w"

definition EmployeeService_getEmployeeById ::
  "'db prisma_employee \<Rightarrow> builtins \<Rightarrow> id_arg \<Rightarrow> 'db world
     \<Rightarrow> (js_error + Employee) \<times> 'db world" where
  "EmployeeService_getEmployeeById P B eid w =
     (case EmployeeRepository_findById P B eid w of
        (Inl err, w1) \<Rightarrow> (Inl err, w1)
      | (Inr None, w1) \<Rightarrow> (Inl (Error ''Employee not found''), w1)
      | (Inr (Some employee), w1) \<Rightarrow> (Inr employee, w1))"

definition EmployeeService_createEmployee ::
  "'db prisma_employee \<Rightarrow> builtins \<Rightarrow> CreateEmployeeData \<Rightarrow> 'db world
     \<Rightarrow> (js_error + Employee) \<times> 'db world" where
  "EmployeeService_createEmployee P B data w =
     (let requestDto = CreateEmployeeRequestDto_new B data;
          validation = CreateEmployeeRequestDto_validate requestDto
      in if \<not> isValid validation then (Inl (Error (join '', '' (errors validation))), w)
         else (case EmployeeRepository_findByEmail P (the_string (c_email requestDto)) w of
                 (Inl err, w1) \<Rightarrow> (Inl err, w1)
               | (Inr (Some existingEmployee), w1) \<Rightarrow>
                   (Inl (Error ''Employee with this email already exists''), w1)
               | (Inr None, w1) \<Rightarrow> EmployeeRepository_create P requestDto w1))"

definition EmployeeService_updateEmployee ::
  "'db prisma_employee \<Rightarrow> builtins \<Rightarrow> id_arg \<Rightarrow> CreateEmployeeData \<Rightarrow> 'db world
     \<Rightarrow> (js_error + Employee) \<times> 'db world" where
  "EmployeeService_updateEmployee P B eid data w =
     (case EmployeeRepository_findById P B eid w of
        (Inl err, w1) \<Rightarrow> (Inl err, w1)
      | (Inr None, w1) \<Rightarrow> (Inl (Error ''Employee not found''), w1)
      | (Inr (Some employee), w1) \<Rightarrow>
          (let requestDto = UpdateEmployeeRequestDto_new B data;
               validation = UpdateEmployeeRequestDto_validate requestDto
           in if \<not> isValid validation then (Inl (Error (join '', '' (errors validation))), w1)
              else if isEmpty requestDto then (Inl (Error ''No fields to update''), w1)
              else if truthy_string (get_prop (u_email requestDto))
                      \<and> get_prop (u_email requestDto) \<noteq> Val (e_email employee)
              then (case EmployeeRepository_findByEmail P
                           (the_string (get_prop (u_email requestDto))) w1 of
                      (Inl err, w2) \<Rightarrow> (Inl err, w2)
                    | (Inr (Some existingEmployee), w2) \<Rightarrow>
                        (Inl (Error ''Employee with this email already exists''), w2)
                    | (Inr None, w2) \<Rightarrow> EmployeeRepository_update P B eid requestDto w2)
              else EmployeeRepository_update P B eid requestDto w1))"

definition EmployeeService_deleteEmployee ::
  "'db prisma_employee \<Rightarrow> builtins \<Rightarrow> id_arg \<Rightarrow> 'db world
     \<Rightarrow> (js_error + Employee) \<times> 'db world" where
  "EmployeeService_deleteEmployee P B eid w =
     (case EmployeeRepository_findById P B eid w of
        (Inl err, w1) \<Rightarrow> (Inl err, w1)
      | (Inr None, w1) \<Rightarrow> (Inl (Error ''Employee not found''), w1)
      | (Inr (Some employee), w1) \<Rightarrow> EmployeeRepository_delete P B eid w1)"

definition EmployeeService_getEmployeesByDepartment ::
  "'db prisma_employee \<Rightarrow> string js \<Rightarrow> 'db world \<Rightarrow> (js_error + Employee list) \<times> 'db world" where
  "EmployeeService_getEmployeesByDepartment P department w =
     (if \<not> truthy_string department then (Inl (Error ''Department is required''), w)
      else EmployeeRepository_findByDepartment P (the_string department) w)"

section \<open>EmployeeController\<close>

text \<open>
  The response: the status code and the JSON body, which is
  \<open>{success: true, data}\<close> or \<open>{success: false, error}\<close>.
\<close>

datatype response_data = DataArray "jsobject list" | DataObject "jsobject option"

datatype response_body = Success response_data | Failure string

record http_response =
  status :: nat
  body :: response_body

definition EmployeeController_getAllEmployees ::
  "'db prisma_employee \<Rightarrow> builtins \<Rightarrow> 'db world \<Rightarrow> http_response \<times> 'db world" where
  "EmployeeController_getAllEmployees P B w =
     (case EmployeeService_getAllEmployees P w of
        (Inr employees, w1) \<Rightarrow>
          (let employeeDtos = toResponseDtoArray B (Array (map Some employees))
           in (\<lparr> status = 200, body = Success (DataArray employeeDtos) \<rparr>, w1))
      | (Inl (Error message), w1) \<Rightarrow> (\<lparr> status = 500, body = Failure message \<rparr>, w1))"

section \<open>Concrete collaborators for running examples\<close>

text \<open>
  The builtins at the arguments the examples below pass to them (what Node.js returns
  there); at any other argument the table gives a default, and no example reads it.
\<close>

definition sample_builtins :: builtins where
  "sample_builtins =
     \<lparr> parseFloat = (\<lambda>s. if s = ''75000'' then Fin 75000 else NaN),
       parseInt = (\<lambda>s. if s = ''1'' then Fin 1 else if s = ''2'' then Fin 2 else NaN),
       Date_of_string =
         (\<lambda>s. if s = ''2024-01-15'' then DateMs 1705276800000 else InvalidDate),
       Number_toString = (\<lambda>n. if n = Fin 1 then ''1'' else if n = Fin 2 then ''2'' else ''NaN''),
       Decimal_toString =
         (\<lambda>r. if r = 75000 then ''75000'' else if r = 82000 then ''82000'' else ''0'') \<rparr>"

text \<open>
  An in-memory client over a list of rows, newest first: lookups by the two unique
  columns, a serial id, and the unique constraint on \<open>email\<close>.
\<close>

definition mem_findMany :: "Employee list \<Rightarrow> string option \<Rightarrow> js_error + Employee list" where
  "mem_findMany db department =
     Inr (case department of
            None \<Rightarrow> db
          | Some d \<Rightarrow> filter (\<lambda>e. e_department e = d) db)"

definition mem_findUnique :: "Employee list \<Rightarrow> where_unique \<Rightarrow> js_error + Employee option" where
  "mem_findUnique db wh =
     Inr (case wh of
            WhereId k \<Rightarrow> find (\<lambda>e. Fin (of_int (e_id e)) = k) db
          | WhereEmail em \<Rightarrow> find (\<lambda>e. e_email e = em) db)"

definition mem_create ::
  "Employee list \<Rightarrow> EmployeeCreateInput \<Rightarrow> (js_error + Employee) \<times> Employee list" where
  "mem_create db input =
     (case (ci_salary input, ci_hireDate input) of
        (Val (Num (Fin r)), Val h) \<Rightarrow>
          if find (\<lambda>e. e_email e = the_string (ci_email input)) db \<noteq> None
          then (Inl (Error ''Unique constraint failed on the fields: (email)''), db)
          else (let row = \<lparr> e_id = fold max (map e_id db) 0 + 1,
                             e_name = the_string (ci_name input),
                             e_email = the_string (ci_email input),
                             e_position = the_string (ci_position input),
                             e_department = the_string (ci_department input),
                             e_salary = r, e_hireDate = h,
                             e_createdAt = DateMs 0, e_updatedAt = DateMs 0 \<rparr>
                in (Inr row, row # db))
      | _ \<Rightarrow> (Inl (Error ''Invalid value provided''), db))"

fun set_field :: "string \<times> jsval \<Rightarrow> Employee \<Rightarrow> Employee" where
  "set_field (k, JStr s) e =
     (if k = ''name'' then e\<lparr>e_name := s\<rparr>
      else if k = ''email'' then e\<lparr>e_email := s\<rparr>
      else if k = ''position'' then e\<lparr>e_position := s\<rparr>
      else if k = ''department'' then e\<lparr>e_department := s\<rparr>
      else e)"
| "set_field (k, JNum (Fin r)) e = (if k = ''salary'' then e\<lparr>e_salary := r\<rparr> else e)"
| "set_field (k, JDate d) e = (if k = ''hireDate'' then e\<lparr>e_hireDate := d\<rparr> else e)"
| "set_field (k, v) e = e"

definition mem_update ::
  "Employee list \<Rightarrow> jsnum \<Rightarrow> jsobject \<Rightarrow> (js_error + Employee) \<times> Employee list" where
  "mem_update db key updateData =
     (case find (\<lambda>e. Fin (of_int (e_id e)) = key) db of
        None \<Rightarrow> (Inl (Error ''Record to update not found''), db)
      | Some old \<Rightarrow>
          (let row = fold set_field updateData old
           in if find (\<lambda>e. e_id e \<noteq> e_id old \<and> e_email e = e_email row) db \<noteq> None
              then (Inl (Error ''Unique constraint failed on the fields: (email)''), db)
              else (Inr row, map (\<lambda>e. if e_id e = e_id old then row else e) db)))"

definition mem_delete :: "Employee list \<Rightarrow> jsnum \<Rightarrow> (js_error + Employee) \<times> Employee list" where
  "mem_delete db key =
     (case find (\<lambda>e. Fin (of_int (e_id e)) = key) db of
        None \<Rightarrow> (Inl (Error ''Record to delete does not exist''), db)
      | Some old \<Rightarrow> (Inr old, filter (\<lambda>e. e_id e \<noteq> e_id old) db))"

definition mem_prisma :: "Employee list prisma_employee" where
  "mem_prisma =
     \<lparr> prisma_findMany = mem_findMany, prisma_findUnique = mem_findUnique,
       prisma_create = mem_create, prisma_update = mem_update, prisma_delete = mem_delete \<rparr>"

definition ada :: Employee where
  "ada = \<lparr> e_id = 1, e_name = ''Ada'', e_email = ''ada@ex.com'', e_position = ''Engineer'',
           e_department = ''Eng'', e_salary = 75000, e_hireDate = DateMs 1705276800000,
           e_createdAt = DateMs 0, e_updatedAt = DateMs 0 \<rparr>"

definition bob :: Employee where
  "bob = \<lparr> e_id = 2, e_name = ''Bob'', e_email = ''bob@ex.com'', e_position = ''Analyst'',
           e_department = ''Ops'', e_salary = 82000, e_hireDate = DateMs 1705276800000,
           e_createdAt = DateMs 0, e_updatedAt = DateMs 0 \<rparr>"

text \<open>A request body with none of the six keys.\<close>

definition empty_body :: CreateEmployeeData where
  "empty_body =
     \<lparr> d_name = Undefined, d_email = Undefined, d_position = Undefined,
       d_department = Undefined, d_salary = Undefined, d_hireDate = Undefined \<rparr>"

text \<open>\<open>x > 0\<close> for a number.\<close>

fun positive_number :: "jsnum \<Rightarrow> bool" where
  "positive_number NaN = False"
| "positive_number (Fin r) = (0 < r)"
| "positive_number PosInf = True"
| "positive_number NegInf = False"


text \<open>The example request of the specification, and a store of two employees.\<close>

definition john_body :: CreateEmployeeData where
  "john_body =
     \<lparr> d_name = Val ''John Doe'', d_email = Val '' John@Ex.com '',
       d_position = Val ''Engineer'', d_department = Val ''Eng'',
       d_salary = Val (N (Fin 75000)), d_hireDate = Val (DS ''2024-01-15'') \<rparr>"

definition sample_world :: "Employee list world" where
  "sample_world = \<lparr> store = [bob, ada], calls = [] \<rparr>"

text \<open>A store in which another employee's email is the empty string.\<close>

definition cy :: Employee where
  "cy = \<lparr> e_id = 2, e_name = ''Cy'', e_email = [], e_position = ''Clerk'',
          e_department = ''Ops'', e_salary = 82000, e_hireDate = DateMs 1705276800000,
          e_createdAt = DateMs 0, e_updatedAt = DateMs 0 \<rparr>"

definition blank_world :: "Employee list world" where
  "blank_world = \<lparr> store = [cy, ada], calls = [] \<rparr>"

section \<open>Validation of a create request\<close>

text \<open>
  The test of the email against the regular expression, checked against what the
  expression denotes: a local part, \<open>@\<close>, a part, a dot and a part, each non-empty
  and free of white space and \<open>@\<close>.
\<close>

lemma at_not_email_char: "\<not> email_char CHR ''@''"
  by (simp add: email_char_def)

lemma dot_email_char: "email_char CHR ''.''"
  by (simp add: email_char_def is_space_def)

lemma isValidEmail_matches:
  "isValidEmail s \<longleftrightarrow>
     (\<exists>a b c. s = a @ ''@'' @ b @ ''.'' @ c \<and> a \<noteq> [] \<and> b \<noteq> [] \<and> c \<noteq> []
        \<and> list_all email_char a \<and> list_all email_char b \<and> list_all email_char c)"
proof
  assume v: "isValidEmail s"
  define a where "a = takeWhile email_char s"
  from v obtain rest where d: "dropWhile email_char s = CHR ''@'' # rest"
    and ne: "a \<noteq> []" and all: "list_all email_char rest"
    and dot: "CHR ''.'' \<in> set (butlast (tl rest))"
    by (auto simp add: isValidEmail_def a_def split: list.splits)
  from dot obtain r0 t where rest: "rest = r0 # t" and dot': "CHR ''.'' \<in> set (butlast t)"
    by (cases rest) auto
  from dot' have "t \<noteq> []" by auto
  then obtain m l where t: "t = m @ [l]" by (metis rev_exhaust)
  from dot' t have "CHR ''.'' \<in> set m" by simp
  then obtain m1 m2 where m: "m = m1 @ CHR ''.'' # m2" by (meson split_list)
  have s: "s = a @ ''@'' @ (r0 # m1) @ ''.'' @ (m2 @ [l])"
    using takeWhile_dropWhile_id [of email_char s] d rest t m by (simp add: a_def)
  have "list_all email_char a" by (simp add: a_def list_all_iff) (meson set_takeWhileD)
  moreover have "list_all email_char (r0 # m1)" "list_all email_char (m2 @ [l])"
    using all rest t m by (simp_all add: list_all_iff)
  ultimately show "\<exists>a b c. s = a @ ''@'' @ b @ ''.'' @ c \<and> a \<noteq> [] \<and> b \<noteq> [] \<and> c \<noteq> []
        \<and> list_all email_char a \<and> list_all email_char b \<and> list_all email_char c"
    using s ne by blast
next
  assume "\<exists>a b c. s = a @ ''@'' @ b @ ''.'' @ c \<and> a \<noteq> [] \<and> b \<noteq> [] \<and> c \<noteq> []
        \<and> list_all email_char a \<and> list_all email_char b \<and> list_all email_char c"
  then obtain a b c where s: "s = a @ ''@'' @ b @ ''.'' @ c"
    and ne: "a \<noteq> []" "b \<noteq> []" "c \<noteq> []"
    and all: "list_all email_char a" "list_all email_char b" "list_all email_char c"
    by blast
  have s': "s = a @ CHR ''@'' # (b @ CHR ''.'' # c)" using s by simp
  have tw: "takeWhile email_char s = a"
    unfolding s' using all(1) at_not_email_char
    by (simp add: takeWhile_append2 list_all_iff)
  have dw: "dropWhile email_char s = CHR ''@'' # (b @ CHR ''.'' # c)"
    unfolding s' using all(1) at_not_email_char
    by (simp add: dropWhile_append2 list_all_iff)
  obtain b0 b' where b: "b = b0 # b'" using ne(2) by (cases b) auto
  obtain c' cl where c: "c = c' @ [cl]" using ne(3) by (metis rev_exhaust)
  have "butlast (tl (b @ CHR ''.'' # c)) = b' @ CHR ''.'' # c'"
    unfolding b c by (simp add: butlast_append)
  then have dot: "CHR ''.'' \<in> set (butlast (tl (b @ CHR ''.'' # c)))" by simp
  have "list_all email_char (b @ CHR ''.'' # c)"
    using all dot_email_char by (auto simp add: list_all_iff)
  then show "isValidEmail s"
    using tw dw ne(1) dot by (simp add: isValidEmail_def)
qed


lemma if_push: "(if c then e @ a else e) = e @ (if c then a else [])"
  by simp

lemma if_append: "(if c then e @ a else e @ b) = e @ (if c then a else b)"
  by simp

text \<open>The error list is the concatenation of what each of the six checks contributes.\<close>

lemma create_validate_errors:
  "errors (CreateEmployeeRequestDto_validate this) =
     (if \<not> truthy_string (c_name this) then [''Name is required''] else []) @
     (if \<not> truthy_string (c_email this) then [''Email is required'']
      else if \<not> isValidEmail (the_string (c_email this)) then [''Invalid email format''] else []) @
     (if \<not> truthy_string (c_position this) then [''Position is required''] else []) @
     (if \<not> truthy_string (c_department this) then [''Department is required''] else []) @
     (if \<not> truthy_number (c_salary this) then [''Salary is required'']
      else if isNaN (c_salary this) \<or> le_zero (c_salary this)
           then [''Salary must be a positive number''] else []) @
     (if \<not> truthy_Date (c_hireDate this) then [''Hire date is required'']
      else if getTime (the_Date (c_hireDate this)) = NaN then [''Invalid hire date format'']
      else [])"
  apply (simp only: CreateEmployeeRequestDto_validate_def if_push if_append
        Let_def ValidationResult.simps)
  apply (simp only: append_Nil append_assoc)
  done

lemma create_validate_isValid:
  "isValid (CreateEmployeeRequestDto_validate this)
     = (errors (CreateEmployeeRequestDto_validate this) = [])"
  by (simp only: CreateEmployeeRequestDto_validate_def if_push if_append
        Let_def ValidationResult.simps length_0_conv)




lemma create_validate_mem:
  "(''Name is required'' \<in> set (errors (CreateEmployeeRequestDto_validate this)))
     = (\<not> truthy_string (c_name this))"
  "(''Email is required'' \<in> set (errors (CreateEmployeeRequestDto_validate this)))
     = (\<not> truthy_string (c_email this))"
  "(''Invalid email format'' \<in> set (errors (CreateEmployeeRequestDto_validate this)))
     = (truthy_string (c_email this) \<and> \<not> isValidEmail (the_string (c_email this)))"
  "(''Position is required'' \<in> set (errors (CreateEmployeeRequestDto_validate this)))
     = (\<not> truthy_string (c_position this))"
  "(''Department is required'' \<in> set (errors (CreateEmployeeRequestDto_validate this)))
     = (\<not> truthy_string (c_department this))"
  "(''Salary is required'' \<in> set (errors (CreateEmployeeRequestDto_validate this)))
     = (\<not> truthy_number (c_salary this))"
  "(''Salary must be a positive number'' \<in> set (errors (CreateEmployeeRequestDto_validate this)))
     = (truthy_number (c_salary this) \<and> (isNaN (c_salary this) \<or> le_zero (c_salary this)))"
  "(''Hire date is required'' \<in> set (errors (CreateEmployeeRequestDto_validate this)))
     = (\<not> truthy_Date (c_hireDate this))"
  "(''Invalid hire date format'' \<in> set (errors (CreateEmployeeRequestDto_validate this)))
     = (truthy_Date (c_hireDate this) \<and> getTime (the_Date (c_hireDate this)) = NaN)"
  unfolding create_validate_errors
  by simp_all

lemma sample_email: "toLowerCase (trim '' John@Ex.com '') = ''john@ex.com''"
  by code_simp

lemma sample_email_valid: "isValidEmail ''john@ex.com''"
  by code_simp



text \<open>What the salary check answers for a numeric salary that is zero, and one below zero.\<close>

lemma create_zero_salary:
  assumes "d_salary data = Val (N (Fin 0))"
  shows "''Salary is required''
           \<in> set (errors (CreateEmployeeRequestDto_validate (CreateEmployeeRequestDto_new B data)))
       \<and> ''Salary must be a positive number''
           \<notin> set (errors (CreateEmployeeRequestDto_validate (CreateEmployeeRequestDto_new B data)))"
  unfolding create_validate_mem
  by (simp add: CreateEmployeeRequestDto_new_def assms)

lemma create_negative_salary:
  assumes "d_salary data = Val (N (Fin r))" and "r < 0"
  shows "''Salary must be a positive number''
           \<in> set (errors (CreateEmployeeRequestDto_validate (CreateEmployeeRequestDto_new B data)))
       \<and> ''Salary is required''
           \<notin> set (errors (CreateEmployeeRequestDto_validate (CreateEmployeeRequestDto_new B data)))"
  unfolding create_validate_mem
  using assms by (simp add: CreateEmployeeRequestDto_new_def)

text \<open>
  C2. The claim asks that a create input whose salary is numeric and not above 0,
  salary 0 included, gets "Salary must be a positive number" and not "Salary is
  required". At salary 0 the code answers the opposite: the truthiness test
  \<open>!this.salary\<close> comes first and takes 0 for a missing salary, so the \<open><= 0\<close> test of
  the other branch is never reached for it. The example request with \<open>salary: 0\<close>:
\<close>

theorem C2_zero_salary_reported_as_missing:
  "errors (CreateEmployeeRequestDto_validate
      (CreateEmployeeRequestDto_new sample_builtins (john_body\<lparr>d_salary := Val (N (Fin 0))\<rparr>)))
   = [''Salary is required'']"
proof -
  have dto: "CreateEmployeeRequestDto_new sample_builtins
               (john_body\<lparr>d_salary := Val (N (Fin 0))\<rparr>)
     = \<lparr> c_name = Val ''John Doe'', c_email = Val ''john@ex.com'',
         c_position = Val ''Engineer'', c_department = Val ''Eng'',
         c_salary = Val (Num (Fin 0)), c_hireDate = Val (DateMs 1705276800000) \<rparr>"
    apply (simp add: CreateEmployeeRequestDto_new_def john_body_def sample_builtins_def
             sample_email)
    apply code_simp
    done
  show ?thesis
    unfolding dto create_validate_errors
    by (simp add: sample_email_valid)
qed

section \<open>Projections\<close>

text \<open>
  C8. For every employee entity, the list projection the mapper produces has no
  \<open>salary\<close> field, the public projection has no \<open>id\<close> field, and the full-detail
  projection has both \<open>id\<close> and \<open>salary\<close>.
\<close>

theorem C8_projection_fields:
  "(\<exists>dto. toListResponseDto (Some employee) = Some dto \<and> ''salary'' \<notin> set (Object_keys dto))
   \<and> (\<exists>dto. toResponseDto B (Some employee) = Some dto \<and> ''id'' \<notin> set (Object_keys dto))
   \<and> (\<exists>dto. toDetailResponseDto B (Some employee) = Some dto
         \<and> ''id'' \<in> set (Object_keys dto) \<and> ''salary'' \<in> set (Object_keys dto))"
  by (simp add: toListResponseDto_def toResponseDto_def toDetailResponseDto_def
        EmployeeListResponseDto_def EmployeeResponseDto_def EmployeeDetailResponseDto_def
        Object_keys_def)

theorem C8_witness:
  "toListResponseDto (Some ada) = Some [(''id'', JNum (Fin 1)), (''name'', JStr ''Ada''),
       (''email'', JStr ''ada@ex.com''), (''position'', JStr ''Engineer''),
       (''department'', JStr ''Eng'')]
   \<and> (\<exists>dto. toResponseDto sample_builtins (Some ada) = Some dto
         \<and> ''id'' \<notin> set (Object_keys dto))
   \<and> (\<exists>dto. toDetailResponseDto sample_builtins (Some ada) = Some dto
         \<and> ''id'' \<in> set (Object_keys dto) \<and> ''salary'' \<in> set (Object_keys dto))"
  using C8_projection_fields [of ada sample_builtins]
  by (simp add: toListResponseDto_def EmployeeListResponseDto_def ada_def)

lemma toResponseDtoArray_all:
  "toResponseDtoArray B (Array (map Some employees)) = map (EmployeeResponseDto B) employees"
  by (induction employees) (simp_all add: toResponseDtoArray_def toResponseDto_def)

lemma public_projection_fields:
  "''id'' \<notin> set (Object_keys (EmployeeResponseDto B e))"
  "map_of (EmployeeResponseDto B e) ''name'' = Some (JStr (e_name e))"
  "map_of (EmployeeResponseDto B e) ''email'' = Some (JStr (e_email e))"
  "map_of (EmployeeResponseDto B e) ''position'' = Some (JStr (e_position e))"
  "map_of (EmployeeResponseDto B e) ''department'' = Some (JStr (e_department e))"
  by (simp_all add: EmployeeResponseDto_def Object_keys_def)

lemma sample_findMany: "prisma_findMany mem_prisma (store sample_world) None = Inr [bob, ada]"
  by (simp add: mem_prisma_def mem_findMany_def sample_world_def)

text \<open>
  C3, as the code has it. When the service returns the employees, \<open>getAllEmployees\<close>
  answers 200 with a data array that has one element per employee, in the order
  returned; each element carries the name, email, position and department of its
  employee and has no \<open>id\<close> field. (The controller calls \<open>toResponseDtoArray\<close>, the
  public projection, where the claim expects the list projection.)
\<close>

theorem C3_list_endpoint_projection:
  assumes found: "prisma_findMany P (store w) None = Inr employees"
  shows "\<exists>dtos. fst (EmployeeController_getAllEmployees P B w)
                  = \<lparr> status = 200, body = Success (DataArray dtos) \<rparr>
              \<and> list_all2 (\<lambda>dto e. ''id'' \<notin> set (Object_keys dto)
                              \<and> map_of dto ''name'' = Some (JStr (e_name e))
                              \<and> map_of dto ''email'' = Some (JStr (e_email e))
                              \<and> map_of dto ''position'' = Some (JStr (e_position e))
                              \<and> map_of dto ''department'' = Some (JStr (e_department e)))
                   dtos employees"
proof -
  have run: "fst (EmployeeController_getAllEmployees P B w)
       = \<lparr> status = 200, body = Success (DataArray (map (EmployeeResponseDto B) employees)) \<rparr>"
    using found
    by (simp add: EmployeeController_getAllEmployees_def EmployeeService_getAllEmployees_def
          EmployeeRepository_findAll_def toResponseDtoArray_all)
  have each: "list_all2 (\<lambda>dto e. ''id'' \<notin> set (Object_keys dto)
                              \<and> map_of dto ''name'' = Some (JStr (e_name e))
                              \<and> map_of dto ''email'' = Some (JStr (e_email e))
                              \<and> map_of dto ''position'' = Some (JStr (e_position e))
                              \<and> map_of dto ''department'' = Some (JStr (e_department e)))
                   (map (EmployeeResponseDto B) employees) employees"
    unfolding list_all2_map1
    by (rule list_all2_refl) (simp only: public_projection_fields simp_thms)
  show ?thesis
    using run each by blast
qed

text \<open>
  The claim fails on a store of two employees: the elements of the data array have a
  \<open>salary\<close> field and no \<open>id\<close> field.
\<close>

theorem C3_counterexample:
  "EmployeeController_getAllEmployees mem_prisma sample_builtins sample_world
     = (\<lparr> status = 200,
          body = Success (DataArray
            [[(''name'', JStr ''Bob''), (''email'', JStr ''bob@ex.com''),
              (''position'', JStr ''Analyst''), (''department'', JStr ''Ops''),
              (''salary'', JStr ''82000''), (''hireDate'', JDate (DateMs 1705276800000)),
              (''createdAt'', JDate (DateMs 0)), (''updatedAt'', JDate (DateMs 0))],
             [(''name'', JStr ''Ada''), (''email'', JStr ''ada@ex.com''),
              (''position'', JStr ''Engineer''), (''department'', JStr ''Eng''),
              (''salary'', JStr ''75000''), (''hireDate'', JDate (DateMs 1705276800000)),
              (''createdAt'', JDate (DateMs 0)), (''updatedAt'', JDate (DateMs 0))]]) \<rparr>,
        \<lparr> store = [bob, ada], calls = [FindMany None] \<rparr>)"
  by (simp add: EmployeeController_getAllEmployees_def EmployeeService_getAllEmployees_def
        EmployeeRepository_findAll_def toResponseDtoArray_def toResponseDto_def mem_prisma_def
        mem_findMany_def sample_world_def called_def EmployeeResponseDto_def bob_def ada_def
        sample_builtins_def)

theorem C3_witness:
  "prisma_findMany mem_prisma (store sample_world) None = Inr [bob, ada]
   \<and> (\<exists>dtos. fst (EmployeeController_getAllEmployees mem_prisma sample_builtins sample_world)
                  = \<lparr> status = 200, body = Success (DataArray dtos) \<rparr>
              \<and> list_all2 (\<lambda>dto e. ''id'' \<notin> set (Object_keys dto)
                              \<and> map_of dto ''name'' = Some (JStr (e_name e))
                              \<and> map_of dto ''email'' = Some (JStr (e_email e))
                              \<and> map_of dto ''position'' = Some (JStr (e_position e))
                              \<and> map_of dto ''department'' = Some (JStr (e_department e)))
                   dtos [bob, ada])"
  using sample_findMany C3_list_endpoint_projection [OF sample_findMany, of sample_builtins]
  by simp


section \<open>The create pipeline\<close>

lemma create_valid_fields:
  assumes "isValid (CreateEmployeeRequestDto_validate this)"
  shows "truthy_string (c_email this)" and "truthy_number (c_salary this)"
    and "\<not> isNaN (c_salary this)" and "\<not> le_zero (c_salary this)"
  using assms
  unfolding create_validate_isValid create_validate_errors
  by (auto split: if_splits)

lemma create_dto_email:
  "c_email (CreateEmployeeRequestDto_new B data) = opt_trim_lower (d_email data)"
  by (simp add: CreateEmployeeRequestDto_new_def)

lemma truthy_opt_trim_lower:
  assumes "truthy_string (opt_trim_lower v)"
  obtains raw where "v = Val raw" and "opt_trim_lower v = Val (toLowerCase (trim raw))"
  using assms by (cases v) auto

text \<open>A number that is truthy, not NaN and not \<open><= 0\<close> is one that is \<open>> 0\<close>.\<close>

lemma positive_number_iff:
  "positive_number n
     = (truthy_number (Val (Num n)) \<and> \<not> isNaN (Val (Num n)) \<and> \<not> le_zero (Val (Num n)))"
  by (cases n) auto

lemma ada_email: "toLowerCase (trim ''ADA@Ex.com '') = ''ada@ex.com''"
  by code_simp

lemma bob_email: "toLowerCase (trim ''Bob@Ex.com'') = ''bob@ex.com''"
  by code_simp

lemma ada_email_valid: "isValidEmail ''ada@ex.com''"
  by code_simp

lemma bob_email_valid: "isValidEmail ''bob@ex.com''"
  by code_simp

lemma blank_trim: "trim ''  '' = []"
  by (simp add: trim_def is_space_def)

lemma toLowerCase_Nil: "toLowerCase [] = []"
  by (simp add: toLowerCase_def)




lemma ada_again_dto:
  "CreateEmployeeRequestDto_new sample_builtins (john_body\<lparr>d_email := Val ''ADA@Ex.com ''\<rparr>) =
     \<lparr> c_name = Val ''John Doe'', c_email = Val ''ada@ex.com'',
       c_position = Val ''Engineer'', c_department = Val ''Eng'',
       c_salary = Val (Num (Fin 75000)), c_hireDate = Val (DateMs 1705276800000) \<rparr>"
  apply (simp add: CreateEmployeeRequestDto_new_def john_body_def sample_builtins_def ada_email)
  apply code_simp
  done

lemma ada_again_valid:
  "isValid (CreateEmployeeRequestDto_validate
     (CreateEmployeeRequestDto_new sample_builtins (john_body\<lparr>d_email := Val ''ADA@Ex.com ''\<rparr>)))"
  unfolding create_validate_isValid create_validate_errors ada_again_dto
  by (simp add: ada_email_valid)

lemma ada_found:
  "prisma_findUnique mem_prisma (store sample_world)
     (WhereEmail (toLowerCase (trim ''ADA@Ex.com ''))) = Inr (Some ada)"
  unfolding ada_email
  by (simp add: mem_prisma_def mem_findUnique_def sample_world_def bob_def ada_def)

lemma bob_found:
  "prisma_findUnique mem_prisma (store sample_world) (WhereEmail ''bob@ex.com'') = Inr (Some bob)"
  by (simp add: mem_prisma_def mem_findUnique_def sample_world_def bob_def ada_def)

text \<open>An invalid input is refused before any call to the persistence layer.\<close>

lemma create_invalid_run:
  assumes "\<not> isValid (CreateEmployeeRequestDto_validate (CreateEmployeeRequestDto_new B data))"
  shows "EmployeeService_createEmployee P B data w
           = (Inl (Error (join '', '' (errors (CreateEmployeeRequestDto_validate
                                               (CreateEmployeeRequestDto_new B data))))), w)"
  using assms by (simp add: EmployeeService_createEmployee_def Let_def)

lemma create_valid_run:
  assumes valid: "isValid (CreateEmployeeRequestDto_validate (CreateEmployeeRequestDto_new B data))"
  obtains raw where "d_email data = Val raw"
    and "EmployeeService_createEmployee P B data w
           = (case prisma_findUnique P (store w) (WhereEmail (toLowerCase (trim raw))) of
                Inl err \<Rightarrow> (Inl err, called (FindUnique (WhereEmail (toLowerCase (trim raw)))) w)
              | Inr (Some existingEmployee) \<Rightarrow>
                  (Inl (Error ''Employee with this email already exists''),
                   called (FindUnique (WhereEmail (toLowerCase (trim raw)))) w)
              | Inr None \<Rightarrow>
                  EmployeeRepository_create P (CreateEmployeeRequestDto_new B data)
                    (called (FindUnique (WhereEmail (toLowerCase (trim raw)))) w))"
proof -
  let ?dto = "CreateEmployeeRequestDto_new B data"
  from create_valid_fields(1) [OF valid] obtain raw where raw: "d_email data = Val raw"
    and em: "c_email ?dto = Val (toLowerCase (trim raw))"
    unfolding create_dto_email by (rule truthy_opt_trim_lower)
  have "EmployeeService_createEmployee P B data w
           = (case prisma_findUnique P (store w) (WhereEmail (toLowerCase (trim raw))) of
                Inl err \<Rightarrow> (Inl err, called (FindUnique (WhereEmail (toLowerCase (trim raw)))) w)
              | Inr (Some existingEmployee) \<Rightarrow>
                  (Inl (Error ''Employee with this email already exists''),
                   called (FindUnique (WhereEmail (toLowerCase (trim raw)))) w)
              | Inr None \<Rightarrow>
                  EmployeeRepository_create P ?dto
                    (called (FindUnique (WhereEmail (toLowerCase (trim raw)))) w))"
    using valid
    by (simp add: EmployeeService_createEmployee_def EmployeeRepository_findByEmail_def
          Let_def em split: sum.splits option.splits)
  with raw show ?thesis by (rule that)
qed

lemma repo_create_calls:
  "calls (snd (EmployeeRepository_create P dto w))
     = calls w @ [Create \<lparr> ci_name = c_name dto, ci_email = c_email dto,
                            ci_position = c_position dto, ci_department = c_department dto,
                            ci_salary = c_salary dto, ci_hireDate = c_hireDate dto \<rparr>]"
  by (simp add: EmployeeRepository_create_def Let_def split: prod.splits)

lemma ada_again_run:
  "EmployeeService_createEmployee mem_prisma sample_builtins
        (john_body\<lparr>d_email := Val ''ADA@Ex.com ''\<rparr>) sample_world
     = (Inl (Error ''Employee with this email already exists''),
        \<lparr> store = [bob, ada], calls = [FindUnique (WhereEmail ''ada@ex.com'')] \<rparr>)"
  using ada_again_valid ada_found
  by (simp add: EmployeeService_createEmployee_def EmployeeRepository_findByEmail_def
        Let_def ada_again_dto ada_email called_def sample_world_def)

text \<open>
  C6. If, while \<open>createEmployee\<close> runs, \<open>repository.findByEmail\<close> is called and finds an
  existing employee, then it was called on the normalised input email (trimmed and
  lower-cased), \<open>createEmployee\<close> fails with "Employee with this email already
  exists", and that lookup is the only call made to the persistence layer: the create
  operation is not invoked and the store is unchanged, so the second employee is not
  persisted.
\<close>

theorem C6_duplicate_email_conflict:
  assumes looked_up:
        "FindUnique (WhereEmail em)
           \<in> set (calls_since w (snd (EmployeeService_createEmployee P B data w)))"
      and found: "prisma_findUnique P (store w) (WhereEmail em) = Inr (Some existing)"
  shows "(\<exists>raw. d_email data = Val raw \<and> em = toLowerCase (trim raw))
         \<and> EmployeeService_createEmployee P B data w
             = (Inl (Error ''Employee with this email already exists''),
                called (FindUnique (WhereEmail em)) w)
         \<and> store (snd (EmployeeService_createEmployee P B data w)) = store w
         \<and> calls_since w (snd (EmployeeService_createEmployee P B data w))
             = [FindUnique (WhereEmail em)]"
proof (cases "isValid (CreateEmployeeRequestDto_validate (CreateEmployeeRequestDto_new B data))")
  case False
  from looked_up show ?thesis
    unfolding create_invalid_run [OF False] by (simp add: calls_since_def)
next
  case True
  then obtain raw where raw: "d_email data = Val raw"
    and run: "EmployeeService_createEmployee P B data w
           = (case prisma_findUnique P (store w) (WhereEmail (toLowerCase (trim raw))) of
                Inl err \<Rightarrow> (Inl err, called (FindUnique (WhereEmail (toLowerCase (trim raw)))) w)
              | Inr (Some existingEmployee) \<Rightarrow>
                  (Inl (Error ''Employee with this email already exists''),
                   called (FindUnique (WhereEmail (toLowerCase (trim raw)))) w)
              | Inr None \<Rightarrow>
                  EmployeeRepository_create P (CreateEmployeeRequestDto_new B data)
                    (called (FindUnique (WhereEmail (toLowerCase (trim raw)))) w))"
    by (rule create_valid_run)
  have same: "em = toLowerCase (trim raw)"
    using looked_up unfolding run
    by (auto simp add: calls_since_def called_def repo_create_calls
          split: sum.splits option.splits)
  show ?thesis
    using raw found unfolding run same
    by (simp add: calls_since_def called_def)
qed

text \<open>
  The example request sent again with the email of a stored employee in another case:
  the lookup is made, finds the stored employee, and the request is refused.
\<close>

theorem C6_witness:
  "FindUnique (WhereEmail ''ada@ex.com'')
      \<in> set (calls_since sample_world (snd (EmployeeService_createEmployee mem_prisma
                 sample_builtins (john_body\<lparr>d_email := Val ''ADA@Ex.com ''\<rparr>) sample_world)))
   \<and> prisma_findUnique mem_prisma (store sample_world) (WhereEmail ''ada@ex.com'') = Inr (Some ada)
   \<and> d_email (john_body\<lparr>d_email := Val ''ADA@Ex.com ''\<rparr>) = Val ''ADA@Ex.com ''
   \<and> toLowerCase (trim ''ADA@Ex.com '') = ''ada@ex.com''
   \<and> EmployeeService_createEmployee mem_prisma sample_builtins
        (john_body\<lparr>d_email := Val ''ADA@Ex.com ''\<rparr>) sample_world
       = (Inl (Error ''Employee with this email already exists''),
          \<lparr> store = [bob, ada], calls = [FindUnique (WhereEmail ''ada@ex.com'')] \<rparr>)"
proof -
  have looked_up: "FindUnique (WhereEmail ''ada@ex.com'')
      \<in> set (calls_since sample_world (snd (EmployeeService_createEmployee mem_prisma
                 sample_builtins (john_body\<lparr>d_email := Val ''ADA@Ex.com ''\<rparr>) sample_world)))"
    unfolding ada_again_run by (simp add: calls_since_def sample_world_def)
  have found: "prisma_findUnique mem_prisma (store sample_world) (WhereEmail ''ada@ex.com'')
                 = Inr (Some ada)"
    using ada_found unfolding ada_email .
  show ?thesis
    using C6_duplicate_email_conflict [OF looked_up found] looked_up found
    by (simp add: ada_email called_def sample_world_def)
qed







section \<open>The update pipeline\<close>

lemma update_validate_errors:
  "errors (UpdateEmployeeRequestDto_validate this) =
     (if get_prop (u_email this) \<noteq> Undefined \<and> truthy_string (get_prop (u_email this))
         \<and> \<not> isValidEmail (the_string (get_prop (u_email this)))
      then [''Invalid email format''] else []) @
     (if get_prop (u_salary this) \<noteq> Undefined
         \<and> (isNaN (get_prop (u_salary this)) \<or> le_zero (get_prop (u_salary this)))
      then [''Salary must be a positive number''] else []) @
     (if get_prop (u_hireDate this) \<noteq> Undefined
         \<and> getTime (the_Date (get_prop (u_hireDate this))) = NaN
      then [''Invalid hire date format''] else [])"
  apply (simp only: UpdateEmployeeRequestDto_validate_def if_push if_append
        Let_def ValidationResult.simps)
  apply (simp only: append_Nil append_assoc)
  done

lemma update_validate_isValid:
  "isValid (UpdateEmployeeRequestDto_validate this)
     = (errors (UpdateEmployeeRequestDto_validate this) = [])"
  by (simp only: UpdateEmployeeRequestDto_validate_def if_push if_append
        Let_def ValidationResult.simps length_0_conv)

lemma updateData_of_append:
  "updateData_of data =
     (if get_prop (u_name data) \<noteq> Undefined
      then [(''name'', string_val (get_prop (u_name data)))] else []) @
     (if get_prop (u_email data) \<noteq> Undefined
      then [(''email'', string_val (get_prop (u_email data)))] else []) @
     (if get_prop (u_position data) \<noteq> Undefined
      then [(''position'', string_val (get_prop (u_position data)))] else []) @
     (if get_prop (u_department data) \<noteq> Undefined
      then [(''department'', string_val (get_prop (u_department data)))] else []) @
     (if get_prop (u_salary data) \<noteq> Undefined
      then [(''salary'', number_val (get_prop (u_salary data)))] else []) @
     (if get_prop (u_hireDate data) \<noteq> Undefined
      then [(''hireDate'', Date_val (get_prop (u_hireDate data)))] else [])"
  apply (simp only: updateData_of_def if_push if_append Let_def)
  apply (simp only: append_Nil append_assoc)
  done

lemma update_dto_empty_body:
  "UpdateEmployeeRequestDto_new B empty_body =
     \<lparr> u_name = None, u_email = None, u_position = None, u_department = None,
       u_salary = None, u_hireDate = None \<rparr>"
  by (simp add: UpdateEmployeeRequestDto_new_def empty_body_def)

lemma sample_key: "parse_id sample_builtins (IdStr ''1'') = Fin 1"
  by (simp add: parse_id_def sample_builtins_def)

lemma sample_lookup:
  "prisma_findUnique mem_prisma (store sample_world)
     (WhereId (parse_id sample_builtins (IdStr ''1''))) = Inr (Some ada)"
  by (simp add: sample_key mem_prisma_def mem_findUnique_def sample_world_def bob_def ada_def)

text \<open>
  C5. For every existing employee id (the lookup by id finds an employee),
  \<open>updateEmployee\<close> with a body that has none of the recognised fields fails with
  "No fields to update"; the lookup by id is the only call made to the persistence
  layer, so the update operation is not invoked and the store is unchanged.
\<close>

theorem C5_no_fields_to_update:
  assumes existing:
    "prisma_findUnique P (store w) (WhereId (parse_id B eid)) = Inr (Some employee)"
  shows "EmployeeService_updateEmployee P B eid empty_body w
           = (Inl (Error ''No fields to update''),
              called (FindUnique (WhereId (parse_id B eid))) w)
         \<and> store (snd (EmployeeService_updateEmployee P B eid empty_body w)) = store w
         \<and> calls (snd (EmployeeService_updateEmployee P B eid empty_body w))
             = calls w @ [FindUnique (WhereId (parse_id B eid))]"
proof -
  let ?dto = "UpdateEmployeeRequestDto_new B empty_body"
  have valid: "isValid (UpdateEmployeeRequestDto_validate ?dto)"
    by (simp add: update_validate_isValid update_validate_errors update_dto_empty_body)
  have empty: "isEmpty ?dto"
    by (simp add: isEmpty_def UpdateEmployeeRequestDto_keys_def update_dto_empty_body)
  have run: "EmployeeService_updateEmployee P B eid empty_body w
           = (Inl (Error ''No fields to update''),
              called (FindUnique (WhereId (parse_id B eid))) w)"
    using existing valid empty
    by (simp add: EmployeeService_updateEmployee_def EmployeeRepository_findById_def Let_def)
  show ?thesis
    by (simp add: run called_def)
qed

theorem C5_witness:
  "prisma_findUnique mem_prisma (store sample_world)
       (WhereId (parse_id sample_builtins (IdStr ''1''))) = Inr (Some ada)
   \<and> EmployeeService_updateEmployee mem_prisma sample_builtins (IdStr ''1'') empty_body
         sample_world
       = (Inl (Error ''No fields to update''),
          \<lparr> store = [bob, ada], calls = [FindUnique (WhereId (Fin 1))] \<rparr>)"
  using sample_lookup C5_no_fields_to_update [OF sample_lookup]
  by (simp add: sample_key called_def sample_world_def)

lemma repo_update_run:
  "EmployeeRepository_update P B eid dto w =
     (fst (prisma_update P (store w) (parse_id B eid) (updateData_of dto)),
      \<lparr> store = snd (prisma_update P (store w) (parse_id B eid) (updateData_of dto)),
        calls = calls w @ [Update (parse_id B eid) (updateData_of dto)] \<rparr>)"
  by (simp add: EmployeeRepository_update_def Let_def split: prod.splits)

lemma update_dto_fields:
  "u_name (UpdateEmployeeRequestDto_new B data)
     = (if d_name data \<noteq> Undefined then Some (opt_trim (d_name data)) else None)"
  "u_email (UpdateEmployeeRequestDto_new B data)
     = (if d_email data \<noteq> Undefined then Some (opt_trim_lower (d_email data)) else None)"
  "u_position (UpdateEmployeeRequestDto_new B data)
     = (if d_position data \<noteq> Undefined then Some (opt_trim (d_position data)) else None)"
  "u_department (UpdateEmployeeRequestDto_new B data)
     = (if d_department data \<noteq> Undefined then Some (opt_trim (d_department data)) else None)"
  "u_salary (UpdateEmployeeRequestDto_new B data)
     = (if d_salary data \<noteq> Undefined then Some (coerce_salary B (d_salary data)) else None)"
  "u_hireDate (UpdateEmployeeRequestDto_new B data)
     = (if d_hireDate data \<noteq> Undefined then Some (Val (new_Date B (d_hireDate data))) else None)"
  by (simp_all add: UpdateEmployeeRequestDto_new_def)

lemma email_only_dto:
  "UpdateEmployeeRequestDto_new B (empty_body\<lparr>d_email := Val raw\<rparr>) =
     \<lparr> u_name = None, u_email = Some (Val (toLowerCase (trim raw))), u_position = None,
       u_department = None, u_salary = None, u_hireDate = None \<rparr>"
  by (simp add: UpdateEmployeeRequestDto_new_def empty_body_def)

lemma email_only_payload:
  "updateData_of \<lparr> u_name = None, u_email = Some (Val s), u_position = None,
       u_department = None, u_salary = None, u_hireDate = None \<rparr> = [(''email'', JStr s)]"
  unfolding updateData_of_append by simp

lemma blank_email_dto:
  "UpdateEmployeeRequestDto_new B (empty_body\<lparr>d_email := Val ''  ''\<rparr>) =
     \<lparr> u_name = None, u_email = Some (Val []), u_position = None, u_department = None,
       u_salary = None, u_hireDate = None \<rparr>"
  by (simp add: email_only_dto blank_trim toLowerCase_Nil)

lemma bob_only_valid:
  "isValid (UpdateEmployeeRequestDto_validate
     (UpdateEmployeeRequestDto_new sample_builtins (empty_body\<lparr>d_email := Val ''Bob@Ex.com''\<rparr>)))"
  unfolding update_validate_isValid update_validate_errors email_only_dto bob_email
  by (simp add: bob_email_valid)

lemma ada_only_valid:
  "isValid (UpdateEmployeeRequestDto_validate
     (UpdateEmployeeRequestDto_new sample_builtins (empty_body\<lparr>d_email := Val ''ADA@Ex.com ''\<rparr>)))"
  unfolding update_validate_isValid update_validate_errors email_only_dto ada_email
  by (simp add: ada_email_valid)

lemma blank_key_lookup:
  "prisma_findUnique mem_prisma (store blank_world)
     (WhereId (parse_id sample_builtins (IdStr ''1''))) = Inr (Some ada)"
  by (simp add: sample_key mem_prisma_def mem_findUnique_def blank_world_def cy_def ada_def)

lemma cy_found:
  "prisma_findUnique mem_prisma (store blank_world) (WhereEmail []) = Inr (Some cy)"
  by (simp add: mem_prisma_def mem_findUnique_def blank_world_def cy_def ada_def)

text \<open>
  C4, as the code has it. For every existing employee id and every update input that
  passes validation and has an email: if the trimmed, lower-cased email is not empty,
  differs from the stored email of that employee, and the lookup by email finds a
  record holding it, \<open>updateEmployee\<close> fails with "Employee with this email already
  exists" after the two lookups, and the update operation is not invoked; if that
  email equals the employee's own stored email, no lookup by email is made and the
  update operation is invoked, its outcome being the outcome of \<open>updateEmployee\<close>.
\<close>

theorem C4_email_uniqueness_on_update:
  assumes existing:
        "prisma_findUnique P (store w) (WhereId (parse_id B eid)) = Inr (Some employee)"
      and valid: "isValid (UpdateEmployeeRequestDto_validate (UpdateEmployeeRequestDto_new B data))"
      and email: "d_email data = Val raw"
  shows "(toLowerCase (trim raw) \<noteq> [] \<and> toLowerCase (trim raw) \<noteq> e_email employee
          \<and> prisma_findUnique P (store w) (WhereEmail (toLowerCase (trim raw))) = Inr (Some other)
          \<longrightarrow> EmployeeService_updateEmployee P B eid data w
                = (Inl (Error ''Employee with this email already exists''),
                   \<lparr> store = store w,
                     calls = calls w @ [FindUnique (WhereId (parse_id B eid)),
                                        FindUnique (WhereEmail (toLowerCase (trim raw)))] \<rparr>))
       \<and> (toLowerCase (trim raw) = e_email employee
          \<longrightarrow> fst (EmployeeService_updateEmployee P B eid data w)
                = fst (prisma_update P (store w) (parse_id B eid)
                         (updateData_of (UpdateEmployeeRequestDto_new B data)))
            \<and> calls (snd (EmployeeService_updateEmployee P B eid data w))
                = calls w @ [FindUnique (WhereId (parse_id B eid)),
                             Update (parse_id B eid)
                               (updateData_of (UpdateEmployeeRequestDto_new B data))])"
proof -
  let ?dto = "UpdateEmployeeRequestDto_new B data"
  have em: "u_email ?dto = Some (Val (toLowerCase (trim raw)))"
    by (simp add: update_dto_fields email)
  have nonempty: "\<not> isEmpty ?dto"
    by (simp add: isEmpty_def UpdateEmployeeRequestDto_keys_def em)
  show ?thesis
  proof (intro conjI impI)
    assume a: "toLowerCase (trim raw) \<noteq> [] \<and> toLowerCase (trim raw) \<noteq> e_email employee
          \<and> prisma_findUnique P (store w) (WhereEmail (toLowerCase (trim raw))) = Inr (Some other)"
    show "EmployeeService_updateEmployee P B eid data w
                = (Inl (Error ''Employee with this email already exists''),
                   \<lparr> store = store w,
                     calls = calls w @ [FindUnique (WhereId (parse_id B eid)),
                                        FindUnique (WhereEmail (toLowerCase (trim raw)))] \<rparr>)"
      using existing valid nonempty a
      by (simp add: EmployeeService_updateEmployee_def EmployeeRepository_findById_def
            EmployeeRepository_findByEmail_def Let_def em called_def)
  next
    assume own: "toLowerCase (trim raw) = e_email employee"
    have run: "EmployeeService_updateEmployee P B eid data w
      = EmployeeRepository_update P B eid ?dto (called (FindUnique (WhereId (parse_id B eid))) w)"
      using existing valid nonempty own
      by (simp add: EmployeeService_updateEmployee_def EmployeeRepository_findById_def Let_def em)
    show "fst (EmployeeService_updateEmployee P B eid data w)
                = fst (prisma_update P (store w) (parse_id B eid) (updateData_of ?dto))"
      by (simp add: run repo_update_run called_def)
    show "calls (snd (EmployeeService_updateEmployee P B eid data w))
                = calls w @ [FindUnique (WhereId (parse_id B eid)),
                             Update (parse_id B eid) (updateData_of ?dto)]"
      by (simp add: run repo_update_run called_def)
  qed
qed

text \<open>
  The claim as stated fails in two ways. A present email that trims to the empty
  string differs from the stored email and is held by another record, yet no lookup
  by email is made and no conflict is raised: the guard is \<open>requestDto.email && ...\<close>,
  and the update operation is invoked with the empty email (here the store's unique
  constraint refuses it). And an input whose email is held by another record but whose
  salary is invalid fails validation before the uniqueness check is reached.
\<close>

theorem C4_counterexample:
  "prisma_findUnique mem_prisma (store blank_world)
       (WhereId (parse_id sample_builtins (IdStr ''1''))) = Inr (Some ada)
   \<and> u_email (UpdateEmployeeRequestDto_new sample_builtins (empty_body\<lparr>d_email := Val ''  ''\<rparr>))
       = Some (Val [])
   \<and> e_email ada = ''ada@ex.com''
   \<and> prisma_findUnique mem_prisma (store blank_world) (WhereEmail []) = Inr (Some cy)
   \<and> EmployeeService_updateEmployee mem_prisma sample_builtins (IdStr ''1'')
        (empty_body\<lparr>d_email := Val ''  ''\<rparr>) blank_world
       = (Inl (Error ''Unique constraint failed on the fields: (email)''),
          \<lparr> store = [cy, ada],
            calls = [FindUnique (WhereId (Fin 1)), Update (Fin 1) [(''email'', JStr [])]] \<rparr>)
   \<and> prisma_findUnique mem_prisma (store sample_world) (WhereEmail ''bob@ex.com'') = Inr (Some bob)
   \<and> EmployeeService_updateEmployee mem_prisma sample_builtins (IdStr ''1'')
        (empty_body\<lparr>d_email := Val ''bob@ex.com'', d_salary := Val (N (Fin (- 1)))\<rparr>) sample_world
       = (Inl (Error ''Salary must be a positive number''),
          \<lparr> store = [bob, ada], calls = [FindUnique (WhereId (Fin 1))] \<rparr>)"
proof -
  have upd: "mem_update [cy, ada] (Fin 1) [(''email'', JStr [])]
      = (Inl (Error ''Unique constraint failed on the fields: (email)''), [cy, ada])"
    by (simp add: mem_update_def cy_def ada_def Let_def)
  have run1: "EmployeeService_updateEmployee mem_prisma sample_builtins (IdStr ''1'')
        (empty_body\<lparr>d_email := Val ''  ''\<rparr>) blank_world
       = (Inl (Error ''Unique constraint failed on the fields: (email)''),
          \<lparr> store = [cy, ada],
            calls = [FindUnique (WhereId (Fin 1)), Update (Fin 1) [(''email'', JStr [])]] \<rparr>)"
    using blank_key_lookup
    by (simp add: email_only_payload sample_key blank_world_def mem_prisma_def upd
          EmployeeService_updateEmployee_def EmployeeRepository_findById_def
          EmployeeRepository_update_def called_def Let_def
          update_validate_isValid update_validate_errors blank_email_dto isEmpty_def
          UpdateEmployeeRequestDto_keys_def)
  have dto2: "UpdateEmployeeRequestDto_new sample_builtins
                (empty_body\<lparr>d_email := Val ''bob@ex.com'', d_salary := Val (N (Fin (- 1)))\<rparr>)
      = \<lparr> u_name = None, u_email = Some (Val ''bob@ex.com''), u_position = None,
          u_department = None, u_salary = Some (Val (Num (Fin (- 1)))), u_hireDate = None \<rparr>"
    apply (simp add: UpdateEmployeeRequestDto_new_def empty_body_def)
    apply code_simp
    done
  have errs2: "errors (UpdateEmployeeRequestDto_validate \<lparr> u_name = None,
          u_email = Some (Val ''bob@ex.com''), u_position = None,
          u_department = None, u_salary = Some (Val (Num (Fin (- 1)))), u_hireDate = None \<rparr>)
       = [''Salary must be a positive number'']"
    unfolding update_validate_errors by (simp add: bob_email_valid)
  have run2: "EmployeeService_updateEmployee mem_prisma sample_builtins (IdStr ''1'')
        (empty_body\<lparr>d_email := Val ''bob@ex.com'', d_salary := Val (N (Fin (- 1)))\<rparr>) sample_world
       = (Inl (Error ''Salary must be a positive number''),
          \<lparr> store = [bob, ada], calls = [FindUnique (WhereId (Fin 1))] \<rparr>)"
    using sample_lookup
    by (simp add: sample_key sample_world_def
          EmployeeService_updateEmployee_def EmployeeRepository_findById_def
          called_def Let_def dto2 update_validate_isValid errs2)
  show ?thesis
    using blank_key_lookup cy_found bob_found run1 run2
    by (simp add: blank_email_dto ada_def)
qed

text \<open>
  Employee 1 asks for the email of employee 2 and is refused; asked for its own email
  in another case, the update operation is invoked.
\<close>

theorem C4_witness:
  "prisma_findUnique mem_prisma (store sample_world)
       (WhereId (parse_id sample_builtins (IdStr ''1''))) = Inr (Some ada)
   \<and> isValid (UpdateEmployeeRequestDto_validate
        (UpdateEmployeeRequestDto_new sample_builtins (empty_body\<lparr>d_email := Val ''Bob@Ex.com''\<rparr>)))
   \<and> prisma_findUnique mem_prisma (store sample_world) (WhereEmail ''bob@ex.com'') = Inr (Some bob)
   \<and> EmployeeService_updateEmployee mem_prisma sample_builtins (IdStr ''1'')
        (empty_body\<lparr>d_email := Val ''Bob@Ex.com''\<rparr>) sample_world
       = (Inl (Error ''Employee with this email already exists''),
          \<lparr> store = [bob, ada],
            calls = [FindUnique (WhereId (Fin 1)), FindUnique (WhereEmail ''bob@ex.com'')] \<rparr>)
   \<and> isValid (UpdateEmployeeRequestDto_validate
        (UpdateEmployeeRequestDto_new sample_builtins (empty_body\<lparr>d_email := Val ''ADA@Ex.com ''\<rparr>)))
   \<and> calls (snd (EmployeeService_updateEmployee mem_prisma sample_builtins (IdStr ''1'')
        (empty_body\<lparr>d_email := Val ''ADA@Ex.com ''\<rparr>) sample_world))
       = [FindUnique (WhereId (Fin 1)), Update (Fin 1) [(''email'', JStr ''ada@ex.com'')]]"
proof -
  have e1: "d_email (empty_body\<lparr>d_email := Val ''Bob@Ex.com''\<rparr>) = Val ''Bob@Ex.com''"
    by simp
  have e2: "d_email (empty_body\<lparr>d_email := Val ''ADA@Ex.com ''\<rparr>) = Val ''ADA@Ex.com ''"
    by simp
  have differs: "''bob@ex.com'' \<noteq> [] \<and> ''bob@ex.com'' \<noteq> e_email ada"
    by (simp add: ada_def)
  have own: "''ada@ex.com'' = e_email ada"
    by (simp add: ada_def)
  have part1: "EmployeeService_updateEmployee mem_prisma sample_builtins (IdStr ''1'')
        (empty_body\<lparr>d_email := Val ''Bob@Ex.com''\<rparr>) sample_world
       = (Inl (Error ''Employee with this email already exists''),
          \<lparr> store = [bob, ada],
            calls = [FindUnique (WhereId (Fin 1)), FindUnique (WhereEmail ''bob@ex.com'')] \<rparr>)"
    using C4_email_uniqueness_on_update [OF sample_lookup bob_only_valid e1, of bob]
      differs bob_found
    by (simp add: bob_email sample_key sample_world_def)
  have part2: "calls (snd (EmployeeService_updateEmployee mem_prisma sample_builtins (IdStr ''1'')
        (empty_body\<lparr>d_email := Val ''ADA@Ex.com ''\<rparr>) sample_world))
       = [FindUnique (WhereId (Fin 1)), Update (Fin 1) [(''email'', JStr ''ada@ex.com'')]]"
    using C4_email_uniqueness_on_update [OF sample_lookup ada_only_valid e2]
    by (simp add: ada_email sample_key sample_world_def email_only_dto email_only_payload
          own [symmetric])
  show ?thesis
    using sample_lookup bob_only_valid bob_found ada_only_valid part1 part2
    by simp
qed

text \<open>
  C9, as the code has it. For an update input whose only recognised key is one of
  name, email, position and department, present with value \<open>null\<close>: the constructed
  DTO owns that one property, with value \<open>undefined\<close>, so \<open>isEmpty()\<close> is false; for an
  existing id \<open>updateEmployee\<close> does not stop at "No fields to update" but invokes the
  update operation, with a payload that has no field at all.
\<close>

theorem C9_null_string_field_update:
  assumes only_null:
        "data = empty_body\<lparr>d_name := Null\<rparr> \<or> data = empty_body\<lparr>d_email := Null\<rparr>
         \<or> data = empty_body\<lparr>d_position := Null\<rparr> \<or> data = empty_body\<lparr>d_department := Null\<rparr>"
      and existing:
        "prisma_findUnique P (store w) (WhereId (parse_id B eid)) = Inr (Some employee)"
  shows "UpdateEmployeeRequestDto_new B data
           = \<lparr> u_name = (if d_name data = Null then Some Undefined else None),
               u_email = (if d_email data = Null then Some Undefined else None),
               u_position = (if d_position data = Null then Some Undefined else None),
               u_department = (if d_department data = Null then Some Undefined else None),
               u_salary = None, u_hireDate = None \<rparr>
       \<and> length (UpdateEmployeeRequestDto_keys (UpdateEmployeeRequestDto_new B data)) = 1
       \<and> \<not> isEmpty (UpdateEmployeeRequestDto_new B data)
       \<and> updateData_of (UpdateEmployeeRequestDto_new B data) = []
       \<and> fst (EmployeeService_updateEmployee P B eid data w)
            = fst (prisma_update P (store w) (parse_id B eid) [])
       \<and> calls (snd (EmployeeService_updateEmployee P B eid data w))
            = calls w @ [FindUnique (WhereId (parse_id B eid)), Update (parse_id B eid) []]"
proof -
  let ?dto = "UpdateEmployeeRequestDto_new B data"
  have dto: "?dto = \<lparr> u_name = (if d_name data = Null then Some Undefined else None),
               u_email = (if d_email data = Null then Some Undefined else None),
               u_position = (if d_position data = Null then Some Undefined else None),
               u_department = (if d_department data = Null then Some Undefined else None),
               u_salary = None, u_hireDate = None \<rparr>"
    using only_null by (auto simp add: UpdateEmployeeRequestDto_new_def empty_body_def)
  have one: "length (UpdateEmployeeRequestDto_keys ?dto) = 1"
    unfolding dto using only_null
    by (auto simp add: UpdateEmployeeRequestDto_keys_def empty_body_def)
  have nonempty: "\<not> isEmpty ?dto"
    by (simp add: isEmpty_def one)
  have payload: "updateData_of ?dto = []"
    unfolding dto updateData_of_append by simp
  have valid: "isValid (UpdateEmployeeRequestDto_validate ?dto)"
    unfolding dto update_validate_isValid update_validate_errors by simp
  have no_email: "\<not> truthy_string (get_prop (u_email ?dto))"
    unfolding dto by simp
  have run: "EmployeeService_updateEmployee P B eid data w
      = EmployeeRepository_update P B eid ?dto (called (FindUnique (WhereId (parse_id B eid))) w)"
    using existing valid nonempty no_email
    by (simp add: EmployeeService_updateEmployee_def EmployeeRepository_findById_def Let_def)
  show ?thesis
    using dto one nonempty payload
    by (simp add: run repo_update_run called_def)
qed

text \<open>
  The claim as stated covers every recognised key, and fails for the two that are not
  strings. With \<open>{hireDate: null}\<close> the constructor stores \<open>new Date(null)\<close>, the epoch,
  not \<open>undefined\<close>, and the update payload carries it. With \<open>{salary: null}\<close> the
  property is \<open>null\<close>, not \<open>undefined\<close>, and validation refuses the request.
\<close>

theorem C9_counterexample:
  "u_hireDate (UpdateEmployeeRequestDto_new sample_builtins (empty_body\<lparr>d_hireDate := Null\<rparr>))
       = Some (Val (DateMs 0))
   \<and> updateData_of (UpdateEmployeeRequestDto_new sample_builtins (empty_body\<lparr>d_hireDate := Null\<rparr>))
       = [(''hireDate'', JDate (DateMs 0))]
   \<and> EmployeeService_updateEmployee mem_prisma sample_builtins (IdStr ''1'')
        (empty_body\<lparr>d_hireDate := Null\<rparr>) sample_world
       = (Inr (ada\<lparr>e_hireDate := DateMs 0\<rparr>),
          \<lparr> store = [bob, ada\<lparr>e_hireDate := DateMs 0\<rparr>],
            calls = [FindUnique (WhereId (Fin 1)),
                     Update (Fin 1) [(''hireDate'', JDate (DateMs 0))]] \<rparr>)
   \<and> u_salary (UpdateEmployeeRequestDto_new sample_builtins (empty_body\<lparr>d_salary := Null\<rparr>))
       = Some Null
   \<and> EmployeeService_updateEmployee mem_prisma sample_builtins (IdStr ''1'')
        (empty_body\<lparr>d_salary := Null\<rparr>) sample_world
       = (Inl (Error ''Salary must be a positive number''),
          \<lparr> store = [bob, ada], calls = [FindUnique (WhereId (Fin 1))] \<rparr>)"
proof -
  have dto1: "UpdateEmployeeRequestDto_new sample_builtins (empty_body\<lparr>d_hireDate := Null\<rparr>)
       = \<lparr> u_name = None, u_email = None, u_position = None, u_department = None,
           u_salary = None, u_hireDate = Some (Val (DateMs 0)) \<rparr>"
    by (simp add: UpdateEmployeeRequestDto_new_def empty_body_def)
  have payload1: "updateData_of \<lparr> u_name = None, u_email = None, u_position = None,
           u_department = None, u_salary = None, u_hireDate = Some (Val (DateMs 0)) \<rparr>
        = [(''hireDate'', JDate (DateMs 0))]"
    unfolding updateData_of_append by simp
  have upd: "mem_update [bob, ada] (Fin 1) [(''hireDate'', JDate (DateMs 0))]
       = (Inr (ada\<lparr>e_hireDate := DateMs 0\<rparr>), [bob, ada\<lparr>e_hireDate := DateMs 0\<rparr>])"
    by (simp add: mem_update_def bob_def ada_def Let_def)
  have run1: "EmployeeService_updateEmployee mem_prisma sample_builtins (IdStr ''1'')
        (empty_body\<lparr>d_hireDate := Null\<rparr>) sample_world
       = (Inr (ada\<lparr>e_hireDate := DateMs 0\<rparr>),
          \<lparr> store = [bob, ada\<lparr>e_hireDate := DateMs 0\<rparr>],
            calls = [FindUnique (WhereId (Fin 1)),
                     Update (Fin 1) [(''hireDate'', JDate (DateMs 0))]] \<rparr>)"
    using sample_lookup
    by (simp add: payload1 sample_key sample_world_def mem_prisma_def upd
          EmployeeService_updateEmployee_def EmployeeRepository_findById_def
          EmployeeRepository_update_def called_def Let_def
          update_validate_isValid update_validate_errors dto1 isEmpty_def
          UpdateEmployeeRequestDto_keys_def)
  have dto2: "UpdateEmployeeRequestDto_new sample_builtins (empty_body\<lparr>d_salary := Null\<rparr>)
       = \<lparr> u_name = None, u_email = None, u_position = None, u_department = None,
           u_salary = Some Null, u_hireDate = None \<rparr>"
    by (simp add: UpdateEmployeeRequestDto_new_def empty_body_def)
  have errs2: "errors (UpdateEmployeeRequestDto_validate \<lparr> u_name = None, u_email = None,
           u_position = None, u_department = None, u_salary = Some Null, u_hireDate = None \<rparr>)
       = [''Salary must be a positive number'']"
    unfolding update_validate_errors by simp
  have run2: "EmployeeService_updateEmployee mem_prisma sample_builtins (IdStr ''1'')
        (empty_body\<lparr>d_salary := Null\<rparr>) sample_world
       = (Inl (Error ''Salary must be a positive number''),
          \<lparr> store = [bob, ada], calls = [FindUnique (WhereId (Fin 1))] \<rparr>)"
    using sample_lookup
    by (simp add: sample_key sample_world_def
          EmployeeService_updateEmployee_def EmployeeRepository_findById_def
          called_def Let_def dto2 update_validate_isValid errs2)
  show ?thesis
    using run1 run2 by (simp add: dto1 dto2 payload1)
qed

text \<open>\<open>PUT /employees/1\<close> with \<open>{name: null}\<close>.\<close>

theorem C9_witness:
  "prisma_findUnique mem_prisma (store sample_world)
       (WhereId (parse_id sample_builtins (IdStr ''1''))) = Inr (Some ada)
   \<and> UpdateEmployeeRequestDto_new sample_builtins (empty_body\<lparr>d_name := Null\<rparr>)
       = \<lparr> u_name = Some Undefined, u_email = None, u_position = None, u_department = None,
           u_salary = None, u_hireDate = None \<rparr>
   \<and> \<not> isEmpty (UpdateEmployeeRequestDto_new sample_builtins (empty_body\<lparr>d_name := Null\<rparr>))
   \<and> EmployeeService_updateEmployee mem_prisma sample_builtins (IdStr ''1'')
        (empty_body\<lparr>d_name := Null\<rparr>) sample_world
       = (Inr ada, \<lparr> store = [bob, ada],
                     calls = [FindUnique (WhereId (Fin 1)), Update (Fin 1) []] \<rparr>)"
proof -
  have d: "empty_body\<lparr>d_name := Null\<rparr> = empty_body\<lparr>d_name := Null\<rparr>
        \<or> empty_body\<lparr>d_name := Null\<rparr> = empty_body\<lparr>d_email := Null\<rparr>
        \<or> empty_body\<lparr>d_name := Null\<rparr> = empty_body\<lparr>d_position := Null\<rparr>
        \<or> empty_body\<lparr>d_name := Null\<rparr> = empty_body\<lparr>d_department := Null\<rparr>"
    by simp
  have upd: "mem_update [bob, ada] (Fin 1) [] = (Inr ada, [bob, ada])"
    by (simp add: mem_update_def bob_def ada_def Let_def)
  have dto: "UpdateEmployeeRequestDto_new sample_builtins (empty_body\<lparr>d_name := Null\<rparr>)
       = \<lparr> u_name = Some Undefined, u_email = None, u_position = None, u_department = None,
           u_salary = None, u_hireDate = None \<rparr>"
    using C9_null_string_field_update [OF d sample_lookup]
    by (simp add: empty_body_def)
  have payload: "updateData_of \<lparr> u_name = Some Undefined, u_email = None, u_position = None,
           u_department = None, u_salary = None, u_hireDate = None \<rparr> = []"
    unfolding updateData_of_append by simp
  have run: "EmployeeService_updateEmployee mem_prisma sample_builtins (IdStr ''1'')
        (empty_body\<lparr>d_name := Null\<rparr>) sample_world
       = (Inr ada, \<lparr> store = [bob, ada],
                     calls = [FindUnique (WhereId (Fin 1)), Update (Fin 1) []] \<rparr>)"
    using sample_lookup
    by (simp add: payload sample_key sample_world_def mem_prisma_def upd
          EmployeeService_updateEmployee_def EmployeeRepository_findById_def
          EmployeeRepository_update_def called_def Let_def
          update_validate_isValid update_validate_errors dto isEmpty_def
          UpdateEmployeeRequestDto_keys_def)
  show ?thesis
    using C9_null_string_field_update [OF d sample_lookup] sample_lookup dto run
    by simp
qed

lemma update_validate_blank_email:
  assumes email: "d_email data = Val raw" and blank: "trim raw = []"
  shows "UpdateEmployeeRequestDto_validate (UpdateEmployeeRequestDto_new B data)
           = UpdateEmployeeRequestDto_validate
               (UpdateEmployeeRequestDto_new B (data\<lparr>d_email := Undefined\<rparr>))"
proof -
  have errs: "errors (UpdateEmployeeRequestDto_validate (UpdateEmployeeRequestDto_new B data))
      = errors (UpdateEmployeeRequestDto_validate
                   (UpdateEmployeeRequestDto_new B (data\<lparr>d_email := Undefined\<rparr>)))"
    unfolding update_validate_errors
    by (simp add: update_dto_fields email blank toLowerCase_Nil)
  then have "isValid (UpdateEmployeeRequestDto_validate (UpdateEmployeeRequestDto_new B data))
      = isValid (UpdateEmployeeRequestDto_validate
                   (UpdateEmployeeRequestDto_new B (data\<lparr>d_email := Undefined\<rparr>)))"
    unfolding update_validate_isValid by simp
  with errs show ?thesis
    by (simp add: ValidationResult.equality)
qed

text \<open>
  C10, as the code has it. For an update input whose email is present but trims to
  the empty string: \<open>validate()\<close> reports no "Invalid email format" and returns the
  verdict of the same input without the email, so \<open>isValid\<close> is true when the other
  fields are valid; the payload the repository builds from the DTO contains the empty
  email; and when the input is valid, for an existing id, the only calls are the
  lookup by id and the update operation with that payload, so the uniqueness check is
  skipped. The create DTO refuses the same email with "Email is required".
\<close>

theorem C10_blank_email_update:
  assumes email: "d_email data = Val raw" and blank: "trim raw = []"
      and existing:
        "prisma_findUnique P (store w) (WhereId (parse_id B eid)) = Inr (Some employee)"
  shows "''Invalid email format''
            \<notin> set (errors (UpdateEmployeeRequestDto_validate (UpdateEmployeeRequestDto_new B data)))
       \<and> UpdateEmployeeRequestDto_validate (UpdateEmployeeRequestDto_new B data)
            = UpdateEmployeeRequestDto_validate
                (UpdateEmployeeRequestDto_new B (data\<lparr>d_email := Undefined\<rparr>))
       \<and> (''email'', JStr []) \<in> set (updateData_of (UpdateEmployeeRequestDto_new B data))
       \<and> (isValid (UpdateEmployeeRequestDto_validate (UpdateEmployeeRequestDto_new B data))
            \<longrightarrow> calls (snd (EmployeeService_updateEmployee P B eid data w))
                  = calls w @ [FindUnique (WhereId (parse_id B eid)),
                               Update (parse_id B eid)
                                 (updateData_of (UpdateEmployeeRequestDto_new B data))]
                \<and> fst (EmployeeService_updateEmployee P B eid data w)
                  = fst (prisma_update P (store w) (parse_id B eid)
                           (updateData_of (UpdateEmployeeRequestDto_new B data))))
       \<and> ''Email is required''
            \<in> set (errors (CreateEmployeeRequestDto_validate (CreateEmployeeRequestDto_new B data)))"
proof -
  let ?dto = "UpdateEmployeeRequestDto_new B data"
  have em: "u_email ?dto = Some (Val [])"
    by (simp add: update_dto_fields email blank toLowerCase_Nil)
  have noerr: "''Invalid email format'' \<notin> set (errors (UpdateEmployeeRequestDto_validate ?dto))"
    unfolding update_validate_errors by (simp add: em)
  have nonempty: "\<not> isEmpty ?dto"
    by (simp add: isEmpty_def UpdateEmployeeRequestDto_keys_def em)
  have payload: "(''email'', JStr []) \<in> set (updateData_of ?dto)"
    unfolding updateData_of_append by (simp add: em)
  have run: "isValid (UpdateEmployeeRequestDto_validate ?dto) \<Longrightarrow>
      EmployeeService_updateEmployee P B eid data w
      = EmployeeRepository_update P B eid ?dto (called (FindUnique (WhereId (parse_id B eid))) w)"
    using existing nonempty
    by (simp add: EmployeeService_updateEmployee_def EmployeeRepository_findById_def Let_def em)
  have create: "''Email is required''
            \<in> set (errors (CreateEmployeeRequestDto_validate (CreateEmployeeRequestDto_new B data)))"
    unfolding create_validate_mem
    by (simp add: CreateEmployeeRequestDto_new_def email blank toLowerCase_Nil)
  show ?thesis
    using noerr payload create update_validate_blank_email [OF email blank, of B]
    by (simp add: run repo_update_run called_def)
qed

text \<open>
  The claim as stated gives \<open>isValid = true\<close> to every input with a blank email; one
  that also has a negative salary is invalid, and the update operation is not reached.
\<close>

theorem C10_counterexample:
  "d_email (empty_body\<lparr>d_email := Val ''  '', d_salary := Val (N (Fin (- 5)))\<rparr>) = Val ''  ''
   \<and> trim ''  '' = []
   \<and> UpdateEmployeeRequestDto_validate (UpdateEmployeeRequestDto_new sample_builtins
         (empty_body\<lparr>d_email := Val ''  '', d_salary := Val (N (Fin (- 5)))\<rparr>))
       = \<lparr> isValid = False, errors = [''Salary must be a positive number''] \<rparr>
   \<and> EmployeeService_updateEmployee mem_prisma sample_builtins (IdStr ''1'')
        (empty_body\<lparr>d_email := Val ''  '', d_salary := Val (N (Fin (- 5)))\<rparr>) sample_world
       = (Inl (Error ''Salary must be a positive number''),
          \<lparr> store = [bob, ada], calls = [FindUnique (WhereId (Fin 1))] \<rparr>)"
proof -
  have dto: "UpdateEmployeeRequestDto_new sample_builtins
                (empty_body\<lparr>d_email := Val ''  '', d_salary := Val (N (Fin (- 5)))\<rparr>)
      = \<lparr> u_name = None, u_email = Some (Val []), u_position = None,
          u_department = None, u_salary = Some (Val (Num (Fin (- 5)))), u_hireDate = None \<rparr>"
    by (simp add: UpdateEmployeeRequestDto_new_def empty_body_def blank_trim toLowerCase_Nil)
  have errs: "errors (UpdateEmployeeRequestDto_validate \<lparr> u_name = None,
          u_email = Some (Val []), u_position = None,
          u_department = None, u_salary = Some (Val (Num (Fin (- 5)))), u_hireDate = None \<rparr>)
       = [''Salary must be a positive number'']"
    unfolding update_validate_errors by simp
  have verdict: "UpdateEmployeeRequestDto_validate \<lparr> u_name = None,
          u_email = Some (Val []), u_position = None,
          u_department = None, u_salary = Some (Val (Num (Fin (- 5)))), u_hireDate = None \<rparr>
       = \<lparr> isValid = False, errors = [''Salary must be a positive number''] \<rparr>"
    by (rule ValidationResult.equality) (simp_all add: update_validate_isValid errs)
  have run: "EmployeeService_updateEmployee mem_prisma sample_builtins (IdStr ''1'')
        (empty_body\<lparr>d_email := Val ''  '', d_salary := Val (N (Fin (- 5)))\<rparr>) sample_world
       = (Inl (Error ''Salary must be a positive number''),
          \<lparr> store = [bob, ada], calls = [FindUnique (WhereId (Fin 1))] \<rparr>)"
    using sample_lookup
    by (simp add: sample_key sample_world_def
          EmployeeService_updateEmployee_def EmployeeRepository_findById_def
          called_def Let_def dto verdict)
  show ?thesis
    using run by (simp add: dto verdict blank_trim)
qed

text \<open>
  \<open>PUT /employees/1\<close> with \<open>{email: "  "}\<close>: the stored email of employee 1 becomes
  the empty string.
\<close>

theorem C10_witness:
  "d_email (empty_body\<lparr>d_email := Val ''  ''\<rparr>) = Val ''  '' \<and> trim ''  '' = []
   \<and> prisma_findUnique mem_prisma (store sample_world)
        (WhereId (parse_id sample_builtins (IdStr ''1''))) = Inr (Some ada)
   \<and> isValid (UpdateEmployeeRequestDto_validate
        (UpdateEmployeeRequestDto_new sample_builtins (empty_body\<lparr>d_email := Val ''  ''\<rparr>)))
   \<and> EmployeeService_updateEmployee mem_prisma sample_builtins (IdStr ''1'')
        (empty_body\<lparr>d_email := Val ''  ''\<rparr>) sample_world
       = (Inr (ada\<lparr>e_email := []\<rparr>),
          \<lparr> store = [bob, ada\<lparr>e_email := []\<rparr>],
            calls = [FindUnique (WhereId (Fin 1)), Update (Fin 1) [(''email'', JStr [])]] \<rparr>)
   \<and> ''Email is required'' \<in> set (errors (CreateEmployeeRequestDto_validate
        (CreateEmployeeRequestDto_new sample_builtins (empty_body\<lparr>d_email := Val ''  ''\<rparr>))))"
proof -
  have e: "d_email (empty_body\<lparr>d_email := Val ''  ''\<rparr>) = Val ''  ''"
    by simp
  have valid: "isValid (UpdateEmployeeRequestDto_validate
        (UpdateEmployeeRequestDto_new sample_builtins (empty_body\<lparr>d_email := Val ''  ''\<rparr>)))"
    unfolding update_validate_isValid update_validate_errors blank_email_dto by simp
  have upd: "mem_update [bob, ada] (Fin 1) [(''email'', JStr [])]
      = (Inr (ada\<lparr>e_email := []\<rparr>), [bob, ada\<lparr>e_email := []\<rparr>])"
    by (simp add: mem_update_def bob_def ada_def Let_def)
  have run: "EmployeeService_updateEmployee mem_prisma sample_builtins (IdStr ''1'')
        (empty_body\<lparr>d_email := Val ''  ''\<rparr>) sample_world
       = (Inr (ada\<lparr>e_email := []\<rparr>),
          \<lparr> store = [bob, ada\<lparr>e_email := []\<rparr>],
            calls = [FindUnique (WhereId (Fin 1)), Update (Fin 1) [(''email'', JStr [])]] \<rparr>)"
    using sample_lookup
    by (simp add: email_only_payload sample_key sample_world_def mem_prisma_def upd
          EmployeeService_updateEmployee_def EmployeeRepository_findById_def
          EmployeeRepository_update_def called_def Let_def
          update_validate_isValid update_validate_errors blank_email_dto isEmpty_def
          UpdateEmployeeRequestDto_keys_def)
  show ?thesis
    using C10_blank_email_update [OF e blank_trim sample_lookup]
      valid sample_lookup blank_trim run
    by simp
qed

end
